theory Spec2Isabelle
  imports Complex_Main "HOL-Library.Log_Nat"
begin

section \<open>Python values, tables and the library boundary\<close>

text \<open>
  The program is one Python module, \<^verbatim>\<open>data_playbook_app_v1.py\<close>. Two parts of it carry
  behaviour of their own: the data-quality scorer (\<^verbatim>\<open>run_mock_dama_checks\<close>,
  \<^verbatim>\<open>simulate_sql_analysis\<close>) and the state serializer (\<^verbatim>\<open>save_app_state_json\<close>,
  \<^verbatim>\<open>load_app_state_json\<close>, \<^verbatim>\<open>init_session_state\<close>). Both work on dynamically typed
  values, so the embedding has one type of Python values, and every exception the source
  can raise is the \<open>Inl\<close> branch of a sum.

  Conventions of the embedding:
  \<^item> a Python \<^verbatim>\<open>float\<close> is an IEEE double, written as the rational it is equal to; every
    arithmetic operation on floats rounds its exact result to the nearest double
    (\<open>float64\<close>), with no bound on the exponent (the scores lie between 0 and 100, far
    from overflow and underflow); infinities do not occur, and the one NaN is a
    constructor of its own;
  \<^item> a \<^verbatim>\<open>str\<close> is a \<open>string\<close>; a character beyond ASCII is its UTF-8 bytes;
  \<^item> a \<^verbatim>\<open>DataFrame\<close> has string column labels, and its cells are missing, integers,
    floats, strings or timestamps;
  \<^item> what pandas, json and the clock do is a field of the record \<open>pylib\<close> wherever the
    module only calls it and its result is not fixed by the module's own text.
\<close>

datatype exn_class = TypeError | ValueError | KeyError | AttributeError | OverflowError | OSError

datatype exn = Exn exn_class string

fun exn_msg :: "exn \<Rightarrow> string" where
  "exn_msg (Exn c m) = m"

fun exn_cls :: "exn \<Rightarrow> exn_class" where
  "exn_cls (Exn c m) = c"

text \<open>
  A \<^verbatim>\<open>pd.Timestamp\<close>: nanoseconds and an optional zone name. With a zone the nanoseconds
  are the instant in UTC; without one (a naive timestamp) they are the wall-clock reading.
\<close>

record timestamp =
  ts_ns :: int
  ts_tz :: "string option"

datatype cell = CNull | CInt int | CFloat rat | CStr string | CTime timestamp

record dataframe =
  df_index_name :: "string option"
  df_index :: "cell list"
  df_columns :: "(string \<times> cell list) list"

datatype pykey = KNone | KBool bool | KInt int | KFloat rat | KStr string | KTimestamp timestamp

datatype pyval =
    PNone
  | PBool bool
  | PInt int
  | PFloat rat
  | PNaN
  | PStr string
  | PBytes string
  | PList "pyval list"
  | PTuple "pyval list"
  | PDict "(pykey \<times> pyval) list"
  | PTimestamp timestamp
  | PFrame dataframe
  | NpInt int
  | NpFloat64 rat
  | NpFloat rat
  | NpArray "pyval list"

type_synonym pydict = "(pykey \<times> pyval) list"

text \<open>
  \<open>NpFloat64\<close> is a \<^verbatim>\<open>np.float64\<close>: a subclass of \<^verbatim>\<open>float\<close> with numpy's own arithmetic and
  its own \<^verbatim>\<open>__round__\<close>. \<open>NpFloat\<close> stands for a numpy float that is not a subclass of
  \<^verbatim>\<open>float\<close> (\<^verbatim>\<open>np.float32\<close>).

  The library boundary. \<open>unify_zone\<close> is what \<^verbatim>\<open>pd.to_datetime(errors='coerce')\<close> makes of
  one timestamp of a column whose timestamps do not all have the same zone (the column
  is its first argument); \<open>sub_out_of_bounds\<close> is \<^verbatim>\<open>Timestamp - Timedelta\<close> where one of
  the two, or the difference, lies outside the signed 64-bit range of nanoseconds. Both
  differ between versions of pandas.
\<close>

record pylib =
  float_repr :: "rat \<Rightarrow> string"
  py_str :: "pyval \<Rightarrow> string"
  to_json_split :: "dataframe \<Rightarrow> string"
  read_json_split :: "string \<Rightarrow> exn + dataframe"
  frame_of_other :: "pyval \<Rightarrow> exn + dataframe"
  isoformat :: "timestamp \<Rightarrow> string"
  parse_timestamp :: "string \<Rightarrow> exn + timestamp"
  strftime :: "timestamp \<Rightarrow> string \<Rightarrow> string"
  numeric_of_object :: "cell \<Rightarrow> exn + rat option"
  datetime_of_object :: "cell \<Rightarrow> exn + timestamp option"
  compare_nonscalar :: "bool \<Rightarrow> rat option list \<Rightarrow> pyval \<Rightarrow> exn + bool list"
  timedelta_of :: "pyval \<Rightarrow> exn + int"
  unify_zone :: "timestamp list \<Rightarrow> timestamp \<Rightarrow> exn + timestamp option"
  sub_out_of_bounds :: "timestamp \<Rightarrow> int \<Rightarrow> exn + timestamp"
  utc_offset :: "string \<Rightarrow> int \<Rightarrow> int"
  localize :: "string \<Rightarrow> int \<Rightarrow> exn + int"
  app_timezone :: "string option"
  clock_ns :: int
  local_wall_ns :: int

subsection \<open>Python's own operations on values\<close>

text \<open>\<^verbatim>\<open>d.get(key, default)\<close> on a dict with the string key \<open>k\<close>.\<close>

definition dict_get :: "pydict \<Rightarrow> string \<Rightarrow> pyval \<Rightarrow> pyval" where
  "dict_get d k dflt = (case map_of d (KStr k) of Some v \<Rightarrow> v | None \<Rightarrow> dflt)"

text \<open>\<^verbatim>\<open>d[k] = v\<close>: an existing key keeps its place, a new one goes last.\<close>

fun dict_set :: "('k \<times> 'v) list \<Rightarrow> 'k \<Rightarrow> 'v \<Rightarrow> ('k \<times> 'v) list" where
  "dict_set [] k v = [(k, v)]"
| "dict_set ((k', v') # d) k v = (if k' = k then (k, v) # d else (k', v') # dict_set d k v)"

fun key_to_py :: "pykey \<Rightarrow> pyval" where
  "key_to_py KNone = PNone"
| "key_to_py (KBool b) = PBool b"
| "key_to_py (KInt i) = PInt i"
| "key_to_py (KFloat r) = PFloat r"
| "key_to_py (KStr s) = PStr s"
| "key_to_py (KTimestamp t) = PTimestamp t"

fun hashable :: "pyval \<Rightarrow> bool" where
  "hashable (PList xs) = False"
| "hashable (PDict d) = False"
| "hashable (PFrame df) = False"
| "hashable (NpArray xs) = False"
| "hashable (PTuple xs) = list_all hashable xs"
| "hashable v = True"

text \<open>
  The truth value of a Python object, as \<^verbatim>\<open>and\<close> and \<^verbatim>\<open>if\<close> take it. A DataFrame and an
  array of several elements refuse to be a truth value.
\<close>

fun truthy :: "pyval \<Rightarrow> exn + bool" where
  "truthy PNone = Inr False"
| "truthy (PBool b) = Inr b"
| "truthy (PInt i) = Inr (i \<noteq> 0)"
| "truthy (PFloat r) = Inr (r \<noteq> 0)"
| "truthy PNaN = Inr True"
| "truthy (PStr s) = Inr (s \<noteq> [])"
| "truthy (PBytes s) = Inr (s \<noteq> [])"
| "truthy (PList xs) = Inr (xs \<noteq> [])"
| "truthy (PTuple xs) = Inr (xs \<noteq> [])"
| "truthy (PDict d) = Inr (d \<noteq> [])"
| "truthy (PTimestamp t) = Inr True"
| "truthy (PFrame df) = Inl (Exn ValueError ''The truth value of a DataFrame is ambiguous'')"
| "truthy (NpInt i) = Inr (i \<noteq> 0)"
| "truthy (NpFloat64 r) = Inr (r \<noteq> 0)"
| "truthy (NpFloat r) = Inr (r \<noteq> 0)"
| "truthy (NpArray []) = Inr False"
| "truthy (NpArray [x]) = truthy x"
| "truthy (NpArray (x # y # xs)) = Inl (Exn ValueError ''The truth value of an array is ambiguous'')"

text \<open>\<^verbatim>\<open>for x in v\<close>: the elements a value yields, or the TypeError of a value that yields none.\<close>

fun py_iter :: "pyval \<Rightarrow> exn + pyval list" where
  "py_iter (PList xs) = Inr xs"
| "py_iter (PTuple xs) = Inr xs"
| "py_iter (NpArray xs) = Inr xs"
| "py_iter (PDict d) = Inr (map (\<lambda>kv. key_to_py (fst kv)) d)"
| "py_iter (PStr s) = Inr (map (\<lambda>c. PStr [c]) s)"
| "py_iter (PBytes s) = Inr (map (\<lambda>c. PInt (of_char c)) s)"
| "py_iter (PFrame df) = Inr (map (\<lambda>c. PStr (fst c)) (df_columns df))"
| "py_iter v = Inl (Exn TypeError ''object is not iterable'')"

text \<open>\<^verbatim>\<open>isinstance(v, (int, float))\<close>: \<^verbatim>\<open>bool\<close> is a subclass of \<^verbatim>\<open>int\<close>.\<close>

fun is_int_or_float :: "pyval \<Rightarrow> bool" where
  "is_int_or_float (PBool b) = True"
| "is_int_or_float (PInt i) = True"
| "is_int_or_float (PFloat r) = True"
| "is_int_or_float (NpFloat64 r) = True"
| "is_int_or_float PNaN = True"
| "is_int_or_float v = False"

subsection \<open>Floating-point arithmetic\<close>

text \<open>
  \<open>pow2 e\<close> is \<open>2\<^sup>e\<close>. \<open>round_half_even\<close> is the integer nearest to a rational, a tie
  going to the even one.
\<close>

definition pow2 :: "int \<Rightarrow> rat" where
  "pow2 e = (if 0 \<le> e then 2 ^ nat e else 1 / 2 ^ nat (- e))"

definition round_half_even :: "rat \<Rightarrow> int" where
  "round_half_even y =
     (let f = \<lfloor>y\<rfloor>; d = y - of_int f
      in if d < 1 / 2 then f else if 1 / 2 < d then f + 1
         else if even f then f else f + 1)"

text \<open>
  The binary exponent of a nonzero rational \<open>x\<close>: the \<open>e\<close> with \<open>2\<^sup>e \<le> \<bar>x\<bar> < 2\<^sup>e\<^sup>+\<^sup>1\<close>. The
  lengths in bits of numerator and denominator give it up to one, and a comparison
  decides.
\<close>

definition float_exponent :: "rat \<Rightarrow> int" where
  "float_exponent x =
     (let a = \<bar>x\<bar>;
          e = bitlen (fst (quotient_of a)) - bitlen (snd (quotient_of a))
      in if pow2 e \<le> a then e else e - 1)"

text \<open>
  The double nearest to a rational, a tie going to the even significand (the IEEE default
  rounding): doubles with exponent \<open>e\<close> are the multiples of \<open>2\<^sup>e\<^sup>-\<^sup>5\<^sup>2\<close>.
\<close>

definition float64 :: "rat \<Rightarrow> rat" where
  "float64 x =
     (if x = 0 then 0
      else let u = pow2 (float_exponent x - 52)
           in of_int (round_half_even (x / u)) * u)"

text \<open>
  \<^verbatim>\<open>round(x, 1)\<close> on a Python float: the exact value of the double \<open>x\<close> is rounded to the
  nearest tenth, a tie to the even tenth, and the result is the double nearest to that
  tenth (CPython rounds the correctly rounded decimal expansion).
\<close>

definition py_round1 :: "rat \<Rightarrow> rat" where
  "py_round1 x = float64 (of_int (round_half_even (x * 10)) / 10)"

text \<open>
  \<^verbatim>\<open>round(x, 1)\<close> on a \<^verbatim>\<open>np.float64\<close>: numpy multiplies by 10, rounds that double to the
  nearest integer (\<^verbatim>\<open>rint\<close>) and divides by 10.
\<close>

definition np_round1 :: "rat \<Rightarrow> rat" where
  "np_round1 x = float64 (of_int (round_half_even (float64 (x * 10))) / 10)"

subsection \<open>Tables\<close>

definition df_len :: "dataframe \<Rightarrow> nat" where
  "df_len df = length (df_index df)"

definition column_names :: "dataframe \<Rightarrow> string list" where
  "column_names df = map fst (df_columns df)"

text \<open>\<^verbatim>\<open>df.empty\<close>: one of the two axes has length 0.\<close>

definition df_empty :: "dataframe \<Rightarrow> bool" where
  "df_empty df = (df_len df = 0 \<or> df_columns df = [])"

text \<open>
  What every DataFrame satisfies: labels are distinct and every column is as long as the
  index. (pandas can hold repeated labels; the readers this program loads tables with
  rename them apart.)
\<close>

definition df_wf :: "dataframe \<Rightarrow> bool" where
  "df_wf df =
     (distinct (column_names df) \<and>
      list_all (\<lambda>c. length (snd c) = df_len df) (df_columns df))"

text \<open>\<^verbatim>\<open>x in df.columns\<close>: hashes \<open>x\<close> first.\<close>

definition in_columns :: "dataframe \<Rightarrow> pyval \<Rightarrow> exn + bool" where
  "in_columns df x =
     (if \<not> hashable x then Inl (Exn TypeError ''unhashable type'')
      else Inr (case x of PStr s \<Rightarrow> s \<in> set (column_names df) | _ \<Rightarrow> False))"

text \<open>\<^verbatim>\<open>df[x]\<close> for one label.\<close>

definition get_column :: "dataframe \<Rightarrow> pyval \<Rightarrow> exn + cell list" where
  "get_column df x =
     (case x of
        PStr s \<Rightarrow> (case map_of (df_columns df) s of
                     Some col \<Rightarrow> Inr col
                   | None \<Rightarrow> Inl (Exn KeyError s))
      | _ \<Rightarrow> Inl (Exn KeyError ''label''))"

definition is_null :: "cell \<Rightarrow> bool" where
  "is_null c = (c = CNull)"

definition dropna :: "cell list \<Rightarrow> cell list" where
  "dropna col = filter (\<lambda>c. \<not> is_null c) col"

text \<open>Python equality of cell values: the integer 1 and the float 1.0 are one value.\<close>

fun cell_key :: "cell \<Rightarrow> cell" where
  "cell_key (CInt i) = CFloat (of_int i)"
| "cell_key c = c"

definition nunique :: "cell list \<Rightarrow> nat" where
  "nunique col = length (remdups (map cell_key (dropna col)))"

text \<open>Running a computation on every element, stopping at the first exception.\<close>

fun collect :: "('e + 'a) list \<Rightarrow> 'e + 'a list" where
  "collect [] = Inr []"
| "collect (x # xs) =
     (case x of
        Inl e \<Rightarrow> Inl e
      | Inr v \<Rightarrow> (case collect xs of Inl e \<Rightarrow> Inl e | Inr vs \<Rightarrow> Inr (v # vs)))"

text \<open>\<^verbatim>\<open>pd.to_numeric(col, errors='coerce')\<close>, cell by cell.\<close>

definition coerce_numeric :: "pylib \<Rightarrow> cell \<Rightarrow> exn + rat option" where
  "coerce_numeric L c =
     (case c of
        CNull \<Rightarrow> Inr None
      | CInt i \<Rightarrow> Inr (Some (of_int i))
      | CFloat r \<Rightarrow> Inr (Some r)
      | _ \<Rightarrow> numeric_of_object L c)"

definition to_numeric :: "pylib \<Rightarrow> cell list \<Rightarrow> exn + rat option list" where
  "to_numeric L col = collect (map (coerce_numeric L) col)"

fun somes :: "'a option list \<Rightarrow> 'a list" where
  "somes [] = []"
| "somes (None # xs) = somes xs"
| "somes (Some x # xs) = x # somes xs"

text \<open>
  \<^verbatim>\<open>pd.to_datetime(col, errors='coerce')\<close>, cell by cell. When the timestamps found do not
  all have the same zone (some aware and some naive, or of different zones), what becomes
  of each is the library's (\<open>unify_zone\<close>).
\<close>

definition coerce_datetime :: "pylib \<Rightarrow> cell \<Rightarrow> exn + timestamp option" where
  "coerce_datetime L c =
     (case c of
        CNull \<Rightarrow> Inr None
      | CTime t \<Rightarrow> Inr (Some t)
      | _ \<Rightarrow> datetime_of_object L c)"

definition one_zone :: "timestamp list \<Rightarrow> bool" where
  "one_zone ts = (length (remdups (map ts_tz ts)) \<le> 1)"

definition to_datetime :: "pylib \<Rightarrow> cell list \<Rightarrow> exn + timestamp option list" where
  "to_datetime L col =
     (case collect (map (coerce_datetime L) col) of
        Inl e \<Rightarrow> Inl e
      | Inr dates \<Rightarrow>
          if one_zone (somes dates) then Inr dates
          else collect (map (\<lambda>d. case d of
                                    None \<Rightarrow> Inr None
                                  | Some t \<Rightarrow> unify_zone L (somes dates) t) dates))"


section \<open>The data-quality scorer\<close>

text \<open>
  \<^verbatim>\<open>run_mock_dama_checks(df, config)\<close> computes five results, one after the other, each
  behind its own guard and inside its own \<^verbatim>\<open>try\<close>. The embedding has one function per
  dimension. Each returns \<open>Inr\<close> of the value stored in \<^verbatim>\<open>results\<close> and of the count
  reported in \<^verbatim>\<open>issues_summary\<close> (the report's wording is left out), or \<open>Inl\<close> of an
  exception that is raised outside the dimension's \<^verbatim>\<open>try\<close> and so leaves the function.
\<close>

type_synonym dim_result = "pyval \<times> int option"

definition num_rows :: "dataframe \<Rightarrow> int" where
  "num_rows df = int (df_len df)"

text \<open>
  \<^verbatim>\<open>calculate_percentage(numerator, denominator)\<close>. The numerator is a Python \<^verbatim>\<open>int\<close> in
  four of the five calls and a \<^verbatim>\<open>np.int64\<close> in the call for completeness (\<open>numpy\<close>), where
  the quotient, the product and the rounded result are \<^verbatim>\<open>np.float64\<close>. The quotient of two
  integers is the double nearest to the exact quotient (counts of rows are below
  \<open>2\<^sup>5\<^sup>3\<close>).
\<close>

definition calculate_percentage :: "bool \<Rightarrow> int \<Rightarrow> int \<Rightarrow> pyval" where
  "calculate_percentage numpy numerator denominator =
     (if denominator = 0 then PFloat 100
      else let x = float64 (float64 (of_int numerator / of_int denominator) * 100)
           in if numpy then NpFloat64 (np_round1 x) else PFloat (py_round1 x))"

definition error_result :: "exn \<Rightarrow> pyval" where
  "error_result e = PStr (''Error ('' @ exn_msg e @ '')'')"

text \<open>\<^verbatim>\<open>try: ... except Exception as e: results[dim] = f"Error ({e})"\<close>\<close>

definition catch :: "exn + dim_result \<Rightarrow> dim_result" where
  "catch r = (case r of Inl e \<Rightarrow> (error_result e, None) | Inr x \<Rightarrow> x)"

definition issue :: "int \<Rightarrow> int option" where
  "issue n = (if 0 < n then Some n else None)"

text \<open>An f-string field: a string is printed as it is, anything else through \<^verbatim>\<open>str\<close>.\<close>

definition fmt :: "pylib \<Rightarrow> pyval \<Rightarrow> string" where
  "fmt L v = (case v of PStr s \<Rightarrow> s | _ \<Rightarrow> py_str L v)"

text \<open>The guard \<^verbatim>\<open>col and col in df.columns\<close>.\<close>

definition col_configured :: "dataframe \<Rightarrow> pyval \<Rightarrow> exn + bool" where
  "col_configured df x =
     (case truthy x of
        Inl e \<Rightarrow> Inl e
      | Inr t \<Rightarrow> if t then in_columns df x else Inr False)"

subsection \<open>Completeness\<close>

text \<open>\<^verbatim>\<open>[col for col in completeness_cols if col in df.columns]\<close>\<close>

fun filter_present :: "dataframe \<Rightarrow> pyval list \<Rightarrow> exn + pyval list" where
  "filter_present df [] = Inr []"
| "filter_present df (x # xs) =
     (case in_columns df x of
        Inl e \<Rightarrow> Inl e
      | Inr b \<Rightarrow> (case filter_present df xs of
                    Inl e \<Rightarrow> Inl e
                  | Inr r \<Rightarrow> Inr (if b then x # r else r)))"

definition count_nulls :: "cell list \<Rightarrow> int" where
  "count_nulls col = int (length (filter is_null col))"

definition completeness_body :: "dataframe \<Rightarrow> pyval list \<Rightarrow> exn + dim_result" where
  "completeness_body df present_cols =
     (let total_cells = int (length present_cols) * num_rows df
      in case collect (map (get_column df) present_cols) of
           Inl e \<Rightarrow> Inl e
         | Inr cols \<Rightarrow>
             (let nan_cells = sum_list (map count_nulls cols);
                  completeness_score = calculate_percentage True (total_cells - nan_cells) total_cells
              in Inr (completeness_score, issue nan_cells)))"

definition completeness_check :: "dataframe \<Rightarrow> pydict \<Rightarrow> exn + dim_result" where
  "completeness_check df config =
     (case py_iter (dict_get config ''completeness_cols'' (PList [])) of
        Inl e \<Rightarrow> Inl e
      | Inr completeness_cols \<Rightarrow>
          (case filter_present df completeness_cols of
             Inl e \<Rightarrow> Inl e
           | Inr present_cols \<Rightarrow>
               Inr (if present_cols \<noteq> [] then catch (completeness_body df present_cols)
                    else (PStr ''N/A (Cols missing)'', None))))"

subsection \<open>Uniqueness\<close>

definition uniqueness_body :: "dataframe \<Rightarrow> pyval \<Rightarrow> exn + dim_result" where
  "uniqueness_body df unique_col =
     (case get_column df unique_col of
        Inl e \<Rightarrow> Inl e
      | Inr col \<Rightarrow>
          (let non_na_rows = dropna col;
               num_non_na = int (length non_na_rows);
               unique_ids = int (nunique non_na_rows);
               uniqueness_score =
                 (if 0 < num_non_na then calculate_percentage False unique_ids num_non_na
                  else PFloat 100);
               duplicates = num_non_na - unique_ids
           in Inr (uniqueness_score, issue duplicates)))"

definition uniqueness_check :: "dataframe \<Rightarrow> pydict \<Rightarrow> exn + dim_result" where
  "uniqueness_check df config =
     (let unique_col = dict_get config ''uniqueness_col'' PNone
      in case col_configured df unique_col of
           Inl e \<Rightarrow> Inl e
         | Inr ok \<Rightarrow>
             Inr (if ok then catch (uniqueness_body df unique_col)
                  else (PStr ''N/A (Col missing)'', None)))"

subsection \<open>Timeliness\<close>

text \<open>
  \<^verbatim>\<open>get_current_time()\<close>: the clock in the application's zone when the module could set
  one at import, the naive local clock otherwise.
\<close>

definition get_current_time :: "pylib \<Rightarrow> timestamp" where
  "get_current_time L =
     (case app_timezone L of
        Some z \<Rightarrow> \<lparr>ts_ns = clock_ns L, ts_tz = Some z\<rparr>
      | None \<Rightarrow> \<lparr>ts_ns = local_wall_ns L, ts_tz = None\<rparr>)"

text \<open>
  \<^verbatim>\<open>valid_dates.dt.tz\<close>: a datetime column has one zone, or none; a column that still holds
  timestamps of several zones is a column of objects, which has no \<^verbatim>\<open>dt\<close>.
\<close>

definition column_tz :: "timestamp list \<Rightarrow> exn + string option" where
  "column_tz valid =
     (case remdups (map ts_tz valid) of
        [z] \<Rightarrow> Inr z
      | _ \<Rightarrow> Inl (Exn AttributeError ''Can only use .dt accessor with datetimelike values''))"

definition tz_localize_none :: "pylib \<Rightarrow> timestamp \<Rightarrow> timestamp" where
  "tz_localize_none L t =
     (case ts_tz t of
        None \<Rightarrow> t
      | Some z \<Rightarrow> \<lparr>ts_ns = ts_ns t + utc_offset L z (ts_ns t), ts_tz = None\<rparr>)"

definition tz_localize :: "pylib \<Rightarrow> timestamp \<Rightarrow> string \<Rightarrow> exn + timestamp" where
  "tz_localize L t z =
     (case ts_tz t of
        Some z' \<Rightarrow> Inl (Exn TypeError ''Cannot localize tz-aware Timestamp'')
      | None \<Rightarrow> (case localize L z (ts_ns t) of
                   Inl e \<Rightarrow> Inl e
                 | Inr u \<Rightarrow> Inr \<lparr>ts_ns = u, ts_tz = Some z\<rparr>))"

definition tz_convert :: "timestamp \<Rightarrow> string \<Rightarrow> timestamp" where
  "tz_convert t z = t\<lparr>ts_tz := Some z\<rparr>"

text \<open>The four branches that choose \<^verbatim>\<open>now_compare\<close>, in the source's order.\<close>

definition now_compare :: "pylib \<Rightarrow> string option \<Rightarrow> timestamp \<Rightarrow> exn + timestamp" where
  "now_compare L col_tz now =
     (case (col_tz, ts_tz now) of
        (None, Some nz) \<Rightarrow> Inr (tz_localize_none L now)
      | (Some cz, None) \<Rightarrow>
          (case app_timezone L of
             Some a \<Rightarrow> (case tz_localize L now a of
                          Inl e \<Rightarrow> Inl e
                        | Inr n \<Rightarrow> Inr (tz_convert n cz))
           | None \<Rightarrow> Inr now)
      | (Some cz, Some nz) \<Rightarrow> Inr (tz_convert now cz)
      | (None, None) \<Rightarrow> Inr now)"

definition ns_per_day :: int where
  "ns_per_day = 86400000000000"

definition in_int64 :: "int \<Rightarrow> bool" where
  "in_int64 n = (- (2 ^ 63) < n \<and> n < 2 ^ 63)"

text \<open>
  \<^verbatim>\<open>pd.Timedelta(days=days_limit)\<close>, in nanoseconds: a whole number of days within the
  64-bit range of nanoseconds is that many days; anything else is the library's.
\<close>

definition timedelta_days :: "pylib \<Rightarrow> pyval \<Rightarrow> exn + int" where
  "timedelta_days L days =
     (case days of
        PInt n \<Rightarrow> (if in_int64 (n * ns_per_day) then Inr (n * ns_per_day)
                   else timedelta_of L days)
      | _ \<Rightarrow> timedelta_of L days)"

text \<open>\<^verbatim>\<open>now_compare - pd.Timedelta(...)\<close>\<close>

definition sub_timedelta :: "pylib \<Rightarrow> timestamp \<Rightarrow> int \<Rightarrow> exn + timestamp" where
  "sub_timedelta L t td =
     (if in_int64 td \<and> in_int64 (ts_ns t - td) then Inr (t\<lparr>ts_ns := ts_ns t - td\<rparr>)
      else sub_out_of_bounds L t td)"

text \<open>\<^verbatim>\<open>valid_dates[valid_dates > limit_date]\<close>\<close>

definition dates_after :: "timestamp list \<Rightarrow> string option \<Rightarrow> timestamp \<Rightarrow> exn + timestamp list" where
  "dates_after valid col_tz limit_date =
     (if (col_tz = None) \<noteq> (ts_tz limit_date = None)
      then Inl (Exn TypeError ''Cannot compare tz-naive and tz-aware datetime-like objects'')
      else Inr (filter (\<lambda>d. ts_ns limit_date < ts_ns d) valid))"

definition limit_date_of :: "pylib \<Rightarrow> string option \<Rightarrow> pyval \<Rightarrow> exn + timestamp" where
  "limit_date_of L col_tz days_limit =
     (case now_compare L col_tz (get_current_time L) of
        Inl e \<Rightarrow> Inl e
      | Inr nc \<Rightarrow> (case timedelta_days L days_limit of
                     Inl e \<Rightarrow> Inl e
                   | Inr td \<Rightarrow> sub_timedelta L nc td))"

definition timeliness_body :: "pylib \<Rightarrow> dataframe \<Rightarrow> pyval \<Rightarrow> pyval \<Rightarrow> exn + dim_result" where
  "timeliness_body L df time_col days_limit =
     (case get_column df time_col of
        Inl e \<Rightarrow> Inl e
      | Inr col \<Rightarrow>
     (case to_datetime L col of
        Inl e \<Rightarrow> Inl e
      | Inr dates \<Rightarrow>
          (let valid_dates = somes dates
           in if valid_dates \<noteq> [] then
                (case column_tz valid_dates of
                   Inl e \<Rightarrow> Inl e
                 | Inr col_tz \<Rightarrow>
                (case limit_date_of L col_tz days_limit of
                   Inl e \<Rightarrow> Inl e
                 | Inr limit_date \<Rightarrow>
                (case dates_after valid_dates col_tz limit_date of
                   Inl e \<Rightarrow> Inl e
                 | Inr timely \<Rightarrow>
                     (let timely_records = int (length timely);
                          timeliness_score =
                            calculate_percentage False timely_records (num_rows df);
                          outdated_records = int (length valid_dates) - timely_records
                      in Inr (timeliness_score, issue outdated_records)))))
              else Inr (PStr ''N/A (No valid dates)'', None))))"

definition timeliness_check :: "pylib \<Rightarrow> dataframe \<Rightarrow> pydict \<Rightarrow> exn + dim_result" where
  "timeliness_check L df config =
     (let time_col = dict_get config ''timeliness_col'' PNone;
          days_limit = dict_get config ''timeliness_days'' (PInt 90)
      in case col_configured df time_col of
           Inl e \<Rightarrow> Inl e
         | Inr ok \<Rightarrow>
             Inr (if ok then catch (timeliness_body L df time_col days_limit)
                  else (PStr (''N/A (Col missing or invalid limit: '' @ fmt L days_limit @ '')''),
                        None)))"
subsection \<open>Validity\<close>

text \<open>
  \<^verbatim>\<open>config.get('validity_condition') == '>= 0'\<close> as the condition of an \<^verbatim>\<open>if\<close>: a table
  or an array of several elements compares element by element and then refuses to be a
  truth value.
\<close>

fun eq_str :: "pyval \<Rightarrow> string \<Rightarrow> exn + bool" where
  "eq_str (PStr s) t = Inr (s = t)"
| "eq_str (PFrame df) t = Inl (Exn ValueError ''The truth value of a DataFrame is ambiguous'')"
| "eq_str (NpArray []) t = Inr False"
| "eq_str (NpArray [x]) t = eq_str x t"
| "eq_str (NpArray (x # y # xs)) t = Inl (Exn ValueError ''The truth value of an array is ambiguous'')"
| "eq_str v t = Inr False"

definition validity_body :: "pylib \<Rightarrow> dataframe \<Rightarrow> pydict \<Rightarrow> pyval \<Rightarrow> exn + dim_result" where
  "validity_body L df config validity_col =
     (case get_column df validity_col of
        Inl e \<Rightarrow> Inl e
      | Inr col \<Rightarrow>
     (case to_numeric L col of
        Inl e \<Rightarrow> Inl e
      | Inr coerced \<Rightarrow>
     (let numeric_vals = somes coerced
      in case eq_str (dict_get config ''validity_condition'' PNone) ''>= 0'' of
           Inl e \<Rightarrow> Inl e
         | Inr ge0 \<Rightarrow>
             (let valid_vals =
                    (if ge0 then int (length (filter (\<lambda>x. 0 \<le> x) numeric_vals))
                     else int (length numeric_vals));
                  validity_score = calculate_percentage False valid_vals (num_rows df);
                  invalid_count = int (length numeric_vals) - valid_vals
              in Inr (validity_score, issue invalid_count)))))"

definition validity_check :: "pylib \<Rightarrow> dataframe \<Rightarrow> pydict \<Rightarrow> exn + dim_result" where
  "validity_check L df config =
     (let validity_col = dict_get config ''validity_col'' PNone
      in case col_configured df validity_col of
           Inl e \<Rightarrow> Inl e
         | Inr ok \<Rightarrow>
             Inr (if ok then catch (validity_body L df config validity_col)
                  else (PStr ''N/A (Col missing)'', None)))"

subsection \<open>Consistency\<close>

fun scalar_number :: "pyval \<Rightarrow> rat option" where
  "scalar_number (PBool b) = Some (if b then 1 else 0)"
| "scalar_number (PInt i) = Some (of_int i)"
| "scalar_number (PFloat r) = Some r"
| "scalar_number (NpInt i) = Some (of_int i)"
| "scalar_number (NpFloat64 r) = Some r"
| "scalar_number (NpFloat r) = Some r"
| "scalar_number v = None"

text \<open>
  \<^verbatim>\<open>scores >= bound\<close> (\<open>ge\<close>) and \<^verbatim>\<open>scores <= bound\<close> on a numeric column: a missing score
  compares false, the bounds \<^verbatim>\<open>None\<close> and NaN compare false with every score, a string, bytes
  or a timestamp as the bound is a TypeError, a list-like bound is aligned by pandas.
\<close>

fun series_cmp :: "pylib \<Rightarrow> bool \<Rightarrow> rat option list \<Rightarrow> pyval \<Rightarrow> exn + bool list" where
  "series_cmp L ge scores PNaN = Inr (map (\<lambda>s. False) scores)"
| "series_cmp L ge scores PNone = Inr (map (\<lambda>s. False) scores)"
| "series_cmp L ge scores (PStr t) = Inl (Exn TypeError ''Invalid comparison between float64 and str'')"
| "series_cmp L ge scores (PBytes t) = Inl (Exn TypeError ''Invalid comparison between float64 and bytes'')"
| "series_cmp L ge scores (PTimestamp t) = Inl (Exn TypeError ''Invalid comparison between float64 and Timestamp'')"
| "series_cmp L ge scores bound =
     (case scalar_number bound of
        Some b \<Rightarrow>
          Inr (map (\<lambda>s. case s of None \<Rightarrow> False
                                | Some x \<Rightarrow> if ge then b \<le> x else x \<le> b) scores)
      | None \<Rightarrow> compare_nonscalar L ge scores bound)"

definition consistency_body :: "pylib \<Rightarrow> dataframe \<Rightarrow> pyval \<Rightarrow> pyval \<Rightarrow> pyval \<Rightarrow> exn + dim_result" where
  "consistency_body L df consistency_col min_val max_val =
     (case get_column df consistency_col of
        Inl e \<Rightarrow> Inl e
      | Inr col \<Rightarrow>
     (case to_numeric L col of
        Inl e \<Rightarrow> Inl e
      | Inr scores \<Rightarrow>
     (case series_cmp L True scores min_val of
        Inl e \<Rightarrow> Inl e
      | Inr lo \<Rightarrow>
     (case series_cmp L False scores max_val of
        Inl e \<Rightarrow> Inl e
      | Inr hi \<Rightarrow>
          if length lo \<noteq> length scores \<or> length hi \<noteq> length scores
          then Inl (Exn ValueError ''Lengths must match'')
          else
            (let mask = map (\<lambda>(s, l, h). (l \<and> h) \<or> s = None) (zip scores (zip lo hi));
                 consistent_scores = int (length (filter id mask));
                 consistency_score = calculate_percentage False consistent_scores (num_rows df);
                 inconsistent_count = num_rows df - consistent_scores
             in Inr (consistency_score, issue inconsistent_count))))))"

text \<open>
  The guard is \<^verbatim>\<open>consistency_col and consistency_col in df.columns and
  isinstance(consistency_range, tuple) and len(consistency_range) == 2\<close>; the unpacking
  \<^verbatim>\<open>min_val, max_val = consistency_range\<close> follows it.
\<close>

definition consistency_check :: "pylib \<Rightarrow> dataframe \<Rightarrow> pydict \<Rightarrow> exn + dim_result" where
  "consistency_check L df config =
     (let consistency_col = dict_get config ''consistency_col'' PNone;
          consistency_range = dict_get config ''consistency_range'' (PTuple [PInt 1, PInt 5])
      in case col_configured df consistency_col of
           Inl e \<Rightarrow> Inl e
         | Inr ok \<Rightarrow>
             Inr (case (ok, consistency_range) of
                    (True, PTuple [min_val, max_val]) \<Rightarrow>
                      catch (consistency_body L df consistency_col min_val max_val)
                  | _ \<Rightarrow> (PStr ''N/A (Col/Range missing)'', None)))"

subsection \<open>The five checks together, and the trust score\<close>

type_synonym results = "(string \<times> pyval) list"
type_synonym issues = "(string \<times> int) list"

definition add_issue :: "string \<Rightarrow> int option \<Rightarrow> issues \<Rightarrow> issues" where
  "add_issue name n iss = (case n of None \<Rightarrow> iss | Some c \<Rightarrow> iss @ [(name, c)])"

definition run_mock_dama_checks ::
  "pylib \<Rightarrow> dataframe option \<Rightarrow> pydict \<Rightarrow> exn + (results \<times> issues)" where
  "run_mock_dama_checks L dfo config =
     (case dfo of
        None \<Rightarrow> Inr ([(''Overall Status'', PStr ''Error: No data provided.'')], [])
      | Some df \<Rightarrow>
          if df_empty df
          then Inr ([(''Overall Status'', PStr ''Error: No data provided.'')], [])
          else
            (case completeness_check df config of Inl e \<Rightarrow> Inl e | Inr (r1, i1) \<Rightarrow>
            (case uniqueness_check df config of Inl e \<Rightarrow> Inl e | Inr (r2, i2) \<Rightarrow>
            (case timeliness_check L df config of Inl e \<Rightarrow> Inl e | Inr (r3, i3) \<Rightarrow>
            (case validity_check L df config of Inl e \<Rightarrow> Inl e | Inr (r4, i4) \<Rightarrow>
            (case consistency_check L df config of Inl e \<Rightarrow> Inl e | Inr (r5, i5) \<Rightarrow>
               Inr ([(''Completeness'', r1), (''Uniqueness'', r2), (''Timeliness'', r3),
                     (''Validity'', r4), (''Consistency'', r5)],
                    add_issue ''Consistency'' i5 (add_issue ''Validity'' i4
                      (add_issue ''Timeliness'' i3 (add_issue ''Uniqueness'' i2
                        (add_issue ''Completeness'' i1 [])))))))))))"
text \<open>
  \<^verbatim>\<open>simulate_sql_analysis(df, config)\<close>. The SQL text it returns is presentation; the
  embedding keeps the parts of it that are computed (\<open>mock_sql\<close>), since computing them can
  raise. The trust score is \<^verbatim>\<open>round(sum(valid_scores) / len(valid_scores), 1) if
  valid_scores else 0\<close>. \<^verbatim>\<open>sum\<close> starts from the integer 0 and adds from left to right:
  integers add exactly, and from the first float on every addition rounds to a double
  (the scorer's completeness score, the first of the results, is a \<^verbatim>\<open>np.float64\<close>, which
  \<^verbatim>\<open>sum\<close> adds one by one with \<^verbatim>\<open>+\<close>). The sum, the mean and the rounding are numpy's as
  soon as one score is a \<^verbatim>\<open>np.float64\<close>.
\<close>

definition valid_scores_of :: "results \<Rightarrow> pyval list" where
  "valid_scores_of dama_results = filter is_int_or_float (map snd dama_results)"

definition score_value :: "pyval \<Rightarrow> rat" where
  "score_value v = (case scalar_number v of Some r \<Rightarrow> r | None \<Rightarrow> 0)"

fun is_float :: "pyval \<Rightarrow> bool" where
  "is_float (PFloat r) = True"
| "is_float (NpFloat64 r) = True"
| "is_float v = False"

fun is_np_float64 :: "pyval \<Rightarrow> bool" where
  "is_np_float64 (NpFloat64 r) = True"
| "is_np_float64 v = False"

fun py_sum :: "rat \<Rightarrow> bool \<Rightarrow> pyval list \<Rightarrow> rat" where
  "py_sum acc acc_is_float [] = acc"
| "py_sum acc acc_is_float (v # vs) =
     (if acc_is_float \<or> is_float v
      then py_sum (float64 (float64 acc + float64 (score_value v))) True vs
      else py_sum (acc + score_value v) False vs)"

definition trust_score_of :: "pyval list \<Rightarrow> pyval" where
  "trust_score_of valid_scores =
     (if valid_scores \<noteq> [] then
        (if PNaN \<in> set valid_scores then PNaN
         else let mean = float64 (py_sum 0 False valid_scores / of_nat (length valid_scores))
              in if list_ex is_np_float64 valid_scores then NpFloat64 (np_round1 mean)
                 else PFloat (py_round1 mean))
      else PInt 0)"

fun str_less :: "string \<Rightarrow> string \<Rightarrow> bool" where
  "str_less [] [] = False"
| "str_less [] (y # ys) = True"
| "str_less (x # xs) [] = False"
| "str_less (x # xs) (y # ys) =
     (if (of_char x :: nat) < of_char y then True
      else if (of_char x :: nat) = of_char y then str_less xs ys else False)"

text \<open>
  Python's \<^verbatim>\<open><\<close> on what \<^verbatim>\<open>results\<close> holds, numbers and strings: two numbers compare,
  two strings compare, a number and a string raise TypeError.
\<close>

definition py_lt :: "pyval \<Rightarrow> pyval \<Rightarrow> exn + bool" where
  "py_lt a b =
     (case (a, b) of
        (PStr s, PStr t) \<Rightarrow> Inr (str_less s t)
      | _ \<Rightarrow>
          (if is_int_or_float a \<and> is_int_or_float b then
             (case (scalar_number a, scalar_number b) of
                (Some x, Some y) \<Rightarrow> Inr (x < y)
              | _ \<Rightarrow> Inr False)
           else Inl (Exn TypeError ''less-than not supported between instances of str and float'')))"

text \<open>\<^verbatim>\<open>min(dama_results, key=lambda k: dama_results.get(k, 101))\<close>\<close>

fun min_scan :: "string \<times> pyval \<Rightarrow> results \<Rightarrow> exn + string" where
  "min_scan (k, v) [] = Inr k"
| "min_scan (k, v) ((k', v') # rest) =
     (case py_lt v' v of
        Inl e \<Rightarrow> Inl e
      | Inr b \<Rightarrow> min_scan (if b then (k', v') else (k, v)) rest)"

definition min_key :: "results \<Rightarrow> exn + string" where
  "min_key dama_results =
     (case dama_results of
        [] \<Rightarrow> Inl (Exn ValueError ''min() arg is an empty sequence'')
      | kv # rest \<Rightarrow> min_scan kv rest)"

fun join :: "string \<Rightarrow> string list \<Rightarrow> string" where
  "join sep [] = []"
| "join sep [x] = x"
| "join sep (x # y # xs) = x @ sep @ join sep (y # xs)"

definition quoted_na :: string where
  "quoted_na = [CHR 0x27] @ ''N/A'' @ [CHR 0x27]"

record mock_sql =
  select_cols :: "string list"
  group_by_cols :: string
  avg_trans :: string
  unique_cust :: string
  low_sat_cond :: string
  issues_found :: string
  recommend :: string

datatype sql_text = NoDataText | MockSqlText mock_sql

definition simulate_sql_analysis ::
  "pylib \<Rightarrow> dataframe option \<Rightarrow> pydict \<Rightarrow> exn + (sql_text \<times> pyval \<times> results \<times> issues)" where
  "simulate_sql_analysis L dfo config =
     (case dfo of
        None \<Rightarrow> Inr (NoDataText, PInt 0, [], [])
      | Some df \<Rightarrow>
     (if df_empty df then Inr (NoDataText, PInt 0, [], [])
      else
     (case run_mock_dama_checks L (Some df) config of
        Inl e \<Rightarrow> Inl e
      | Inr (dama_results, issues_summary) \<Rightarrow>
     (let valid_scores = valid_scores_of dama_results;
          trust_score = trust_score_of valid_scores;
          sel = filter (\<lambda>c. c \<in> set (column_names df)) [''Region'', ''ProductCategory''];
          grp = (if sel \<noteq> [] then join '', '' sel else ''1'')
      in
     (case in_columns df (dict_get config ''validity_col'' PNone) of
        Inl e \<Rightarrow> Inl e
      | Inr has_validity \<Rightarrow>
     (case in_columns df (dict_get config ''uniqueness_col'' PNone) of
        Inl e \<Rightarrow> Inl e
      | Inr has_uniqueness \<Rightarrow>
     (let low_sat_col = dict_get config ''consistency_col'' (PStr ''Score'')
      in
     (case in_columns df low_sat_col of
        Inl e \<Rightarrow> Inl e
      | Inr has_low_sat \<Rightarrow>
     (case (if valid_scores \<noteq> [] then min_key dama_results else Inr ''N/A'') of
        Inl e \<Rightarrow> Inl e
      | Inr lowest \<Rightarrow>
          Inr (MockSqlText
                 \<lparr>select_cols = sel,
                  group_by_cols = grp,
                  avg_trans = (if has_validity
                               then ''AVG('' @ fmt L (dict_get config ''validity_col'' (PStr ''Amount'')) @ '')''
                               else quoted_na),
                  unique_cust = (if has_uniqueness
                                 then ''COUNT(DISTINCT '' @ fmt L (dict_get config ''uniqueness_col'' (PStr ''ID'')) @ '')''
                                 else ''COUNT(*)''),
                  low_sat_cond = (if has_low_sat
                                  then ''WHEN '' @ fmt L low_sat_col @ '' < 3 THEN 1 ELSE 0''
                                  else quoted_na),
                  issues_found = (if issues_summary \<noteq> [] then join '', '' (map fst issues_summary)
                                  else ''None''),
                  recommend = lowest\<rparr>,
               trust_score, dama_results, issues_summary))))))))))"

section \<open>The state serializer\<close>

subsection \<open>Tables from and to plain values\<close>

definition range_index :: "nat \<Rightarrow> cell list" where
  "range_index n = map (\<lambda>i. CInt (int i)) [0..<n]"

text \<open>\<^verbatim>\<open>pd.DataFrame(d)\<close> for a dict of equally long lists.\<close>

definition frame_of_columns :: "(string \<times> cell list) list \<Rightarrow> dataframe" where
  "frame_of_columns cols =
     \<lparr>df_index_name = None,
      df_index = range_index (case cols of [] \<Rightarrow> 0 | c # cs \<Rightarrow> length (snd c)),
      df_columns = cols\<rparr>"

text \<open>
  \<^verbatim>\<open>df.reset_index()\<close>: the index becomes the first column, under its name or under
  \<^verbatim>\<open>index\<close>; a column of that name already there is a ValueError.
\<close>

definition reset_index :: "dataframe \<Rightarrow> exn + dataframe" where
  "reset_index df =
     (let name = (case df_index_name df of
                    Some n \<Rightarrow> n
                  | None \<Rightarrow> if ''index'' \<in> set (column_names df) then ''level_0'' else ''index'')
      in if name \<in> set (column_names df)
         then Inl (Exn ValueError (''cannot insert '' @ name @ '', already exists''))
         else Inr \<lparr>df_index_name = None,
                   df_index = range_index (df_len df),
                   df_columns = (name, df_index df) # df_columns df\<rparr>)"

text \<open>\<^verbatim>\<open>df.set_index(name)\<close>: no check that the new index is unique.\<close>

definition set_index :: "dataframe \<Rightarrow> string \<Rightarrow> exn + dataframe" where
  "set_index df name =
     (case map_of (df_columns df) name of
        None \<Rightarrow> Inl (Exn KeyError name)
      | Some col \<Rightarrow>
          Inr \<lparr>df_index_name = Some name,
               df_index = col,
               df_columns = filter (\<lambda>c. fst c \<noteq> name) (df_columns df)\<rparr>)"

fun cell_to_py :: "cell \<Rightarrow> pyval" where
  "cell_to_py CNull = PNaN"
| "cell_to_py (CInt i) = PInt i"
| "cell_to_py (CFloat r) = PFloat r"
| "cell_to_py (CStr s) = PStr s"
| "cell_to_py (CTime t) = PTimestamp t"

fun py_to_cell :: "pyval \<Rightarrow> cell option" where
  "py_to_cell PNone = Some CNull"
| "py_to_cell PNaN = Some CNull"
| "py_to_cell (PInt i) = Some (CInt i)"
| "py_to_cell (PFloat r) = Some (CFloat r)"
| "py_to_cell (PStr s) = Some (CStr s)"
| "py_to_cell (PTimestamp t) = Some (CTime t)"
| "py_to_cell v = None"

definition cell_at :: "cell list \<Rightarrow> nat \<Rightarrow> cell" where
  "cell_at col i = (if i < length col then col ! i else CNull)"

text \<open>\<^verbatim>\<open>df.to_dict(orient='records')\<close>: one dict per row, the index left out.\<close>

definition to_dict_records :: "dataframe \<Rightarrow> pyval list" where
  "to_dict_records df =
     map (\<lambda>i. PDict (map (\<lambda>c. (KStr (fst c), cell_to_py (cell_at (snd c) i))) (df_columns df)))
         [0..<df_len df]"

text \<open>
  \<^verbatim>\<open>pd.DataFrame(items)\<close> for a list of flat records: the columns are the keys in the
  order they first appear, a key a record lacks is a missing cell, the index is
  \<open>0, 1, ...\<close>. Any other shape is left to the library.
\<close>

fun record_cell :: "pykey \<times> pyval \<Rightarrow> (string \<times> cell) option" where
  "record_cell (KStr s, v) = map_option (Pair s) (py_to_cell v)"
| "record_cell (k, v) = None"

fun row_cells :: "pyval \<Rightarrow> (string \<times> cell) list option" where
  "row_cells (PDict kvs) = those (map record_cell kvs)"
| "row_cells v = None"

definition first_seen :: "'a list \<Rightarrow> 'a list" where
  "first_seen xs = rev (remdups (rev xs))"

definition frame_of_rows :: "(string \<times> cell) list list \<Rightarrow> dataframe" where
  "frame_of_rows rows =
     \<lparr>df_index_name = None,
      df_index = range_index (length rows),
      df_columns =
        map (\<lambda>c. (c, map (\<lambda>row. case map_of row c of Some v \<Rightarrow> v | None \<Rightarrow> CNull) rows))
            (first_seen (concat (map (map fst) rows)))\<rparr>"

definition frame_of_records :: "pylib \<Rightarrow> pyval \<Rightarrow> exn + dataframe" where
  "frame_of_records L items =
     (case items of
        PList rs \<Rightarrow> (case those (map row_cells rs) of
                       Some rows \<Rightarrow> Inr (frame_of_rows rows)
                     | None \<Rightarrow> frame_of_other L items)
      | _ \<Rightarrow> frame_of_other L items)"

text \<open>\<^verbatim>\<open>{cat: pd.DataFrame(items) for cat, items in value.items()}\<close>\<close>

fun frames_into :: "pylib \<Rightarrow> pydict \<Rightarrow> pydict \<Rightarrow> exn + pydict" where
  "frames_into L acc [] = Inr acc"
| "frames_into L acc ((cat, items) # rest) =
     (case frame_of_records L items of
        Inl e \<Rightarrow> Inl e
      | Inr df \<Rightarrow> frames_into L (dict_set acc cat (PFrame df)) rest)"

definition frames_of_dict :: "pylib \<Rightarrow> pydict \<Rightarrow> exn + pydict" where
  "frames_of_dict L d = frames_into L [] d"

subsection \<open>Built-in defaults\<close>

definition mock_sectors :: "string list" where
  "mock_sectors =
     [''Mobility'', ''Resilience'', ''Utilities'', ''Healthcare'', ''Finance'', ''Retail'',
      ''Technology'']"

definition mock_personas :: "string list" where
  "mock_personas =
     [''Chief Data Officer (CDO)'', ''Head of Operations'', ''Lead Data Architect'',
      ''Marketing Manager'', ''Data Scientist'', ''Compliance Officer'']"

definition mock_compliance_standards :: "string list" where
  "mock_compliance_standards =
     [''GDPR'', ''CCPA'', ''HIPAA'', ''SOX'', ''ISO 27001'', ''Internal Policy v2.0'']"

definition mock_maturity_dimensions :: "string list" where
  "mock_maturity_dimensions =
     [''Strategy & Vision'', ''Data Governance'', ''Data Quality'',
      ''Technology & Architecture'', ''People & Skills'', ''Data Usage & Analytics'',
      ''Innovation & Value'']"

definition TABS_keys :: "string list" where
  "TABS_keys =
     [[CHR 0xF0, CHR 0x9F, CHR 0x8F, CHR 0xA0] @ '' Landing Page'',
      [CHR 0xF0, CHR 0x9F, CHR 0x93, CHR 0x84] @ '' Executive Summary'',
      [CHR 0xF0, CHR 0x9F, CHR 0x8E, CHR 0x99, CHR 0xEF, CHR 0xB8, CHR 0x8F] @ '' Stakeholder Interviews'',
      [CHR 0xF0, CHR 0x9F, CHR 0x94, CHR 0x8D] @ '' Data Upload & Analysis'',
      [CHR 0xF0, CHR 0x9F, CHR 0x8F, CHR 0x9B, CHR 0xEF, CHR 0xB8, CHR 0x8F] @ '' Data Governance'',
      [CHR 0xF0, CHR 0x9F, CHR 0x93, CHR 0x88] @ '' Maturity Assessment'',
      [CHR 0xF0, CHR 0x9F, CHR 0x97, CHR 0xBA, CHR 0xEF, CHR 0xB8, CHR 0x8F] @ '' Roadmap Builder'',
      [CHR 0xF0, CHR 0x9F, CHR 0x93, CHR 0xA4] @ '' Export'']"

definition default_interview_questions :: "pydict" where
  "default_interview_questions =
     [(KStr ''Chief Data Officer (CDO)'',
      PList [PStr ''What are the top 3 strategic goals data should support?'',
      PStr ''How is data literacy perceived?'',
      PStr ''Biggest roadblocks to being data-driven?'',
      PStr ''How is data value measured?'',
      PStr ''Current state of data governance maturity?'',
      PStr ''Using data for competitive advantage?'',
      PStr ''Needed investments in platforms/tools?'',
      PStr ''Impact of privacy/security concerns?'',
      PStr ''Role of AI/ML in future strategy?'',
      PStr ''Satisfaction with reporting capabilities?'']), (KStr ''Head of Operations'',
      PList [PStr ''Reliability of operational reporting data?'',
      PStr ''Biggest data quality issues impacting ops?'',
      PStr ''Are dashboards timely and actionable?'',
      PStr ''Manual effort in data collection/prep?'',
      PStr ''Do front-line staff have needed data?'',
      PStr ''Impact of data inconsistencies?'',
      PStr ''Processes most improved with better data?'',
      PStr ''Sufficient training on data tools?'',
      PStr ''How is data used for operational KPIs?'',
      PStr ''Challenges accessing cross-departmental data?'']),
      (KStr ''Lead Data Architect'',
      PList [PStr ''Current state of data architecture (scalability, flexibility)?'',
      PStr ''Main data integration challenges?'',
      PStr ''Documentation state of sources/pipelines?'',
      PStr ''Is data storage optimized (cost/performance)?'',
      PStr ''Process for introducing new data tech?'',
      PStr ''Robustness of data security framework?'',
      PStr ''Effectiveness of MDM/reference data management?'',
      PStr ''Technical limitations hindering advanced analytics?'',
      PStr ''How is data lineage tracked?'',
      PStr ''Improvements needed in data modeling?'']), (KStr ''Marketing Manager'',
      PList [PStr ''Effectiveness of customer segmentation?'',
      PStr ''Accuracy/timeliness of campaign tracking?'',
      PStr ''Challenges accessing customer journey data?'',
      PStr ''Confidence in personalization data?'',
      PStr ''Ability to calculate marketing ROI accurately?'',
      PStr ''Missing data sources for complete customer view?'',
      PStr ''Ease of A/B testing and analysis?'',
      PStr ''Right tools for marketing analytics?'',
      PStr ''How does data inform content strategy?'',
      PStr ''Data privacy constraints limiting activities?'']), (KStr ''Data Scientist'',
      PList [PStr ''Accessibility of data for model building?'',
      PStr ''Quality of data available for analysis?'',
      PStr ''Availability of tools/platforms for ML?'',
      PStr ''Collaboration process with domain experts?'',
      PStr ''Process for deploying models into production?'',
      PStr ''Monitoring model performance and drift?'',
      PStr ''Challenges in feature engineering?'',
      PStr ''Ethical considerations in model development?'',
      PStr ''Availability of compute resources?'',
      PStr ''Integration of external datasets?'']), (KStr ''Compliance Officer'',
      PList [PStr ''Effectiveness of current data privacy controls?'',
      PStr ''Process for handling data subject requests (DSRs)?'',
      PStr ''Data retention policy adherence?'',
      PStr ''Audit trails for sensitive data access?'',
      PStr ''Training level on data compliance requirements?'',
      PStr ''Challenges in monitoring regulatory changes?'',
      PStr ''Data classification accuracy?'',
      PStr ''Incident response plan for data breaches?'',
      PStr ''Third-party data sharing risk management?'',
      PStr ''Alignment with specific regulations (GDPR, CCPA etc.)?''])]"

definition default_raci_data :: "(string \<times> cell list) list" where
  "default_raci_data =
     [(''Activity'', [CStr ''Define Data Quality Rules'',
      CStr ''Approve Master Data Changes'', CStr ''Monitor Data Pipeline Health'',
      CStr ''Ensure GDPR Compliance'', CStr ''Develop Analytics Models'',
      CStr ''Manage Data Dictionary'', CStr ''Set Data Access Policy'']), (''CDO'',
      [CStr ''A'', CStr ''A'', CStr ''R'', CStr ''A'', CStr ''S'', CStr ''A'', CStr ''A'']),
      (''Head of Operations'', [CStr ''C'', CStr ''R'', CStr ''A'', CStr ''C'', CStr ''I'',
      CStr ''C'', CStr ''C'']), (''Lead Data Architect'', [CStr ''S'', CStr ''I'',
      CStr ''R'', CStr ''I'', CStr ''R'', CStr ''R'', CStr ''S'']),
      (''Data Steward (Sales)'', [CStr ''R'', CStr ''C'', CStr ''I'', CStr ''R'', CStr ''C'',
      CStr ''R'', CStr ''I'']), (''IT Security'', [CStr ''I'', CStr ''I'', CStr ''C'',
      CStr ''R'', CStr ''I'', CStr ''I'', CStr ''R'']), (''Compliance Officer'', [CStr ''C'',
      CStr ''I'', CStr ''I'', CStr ''A'', CStr ''C'', CStr ''C'', CStr ''A'']),
      (''Data Scientist'', [CStr ''I'', CStr ''I'', CStr ''C'', CStr ''I'', CStr ''A'',
      CStr ''C'', CStr ''I''])]"

definition default_roadmap_items :: "pydict" where
  "default_roadmap_items =
     [(KStr ''Quick Wins (0-3 Months)'', PList [PDict [(KStr ''ID'', PStr ''QW1''),
      (KStr ''Task'', PStr ''Implement Basic Data Quality Dashboard''), (KStr ''Owner'',
      PStr ''Data Steward (Sales)''), (KStr ''Effort'', PStr ''Medium''), (KStr ''Cost'',
      PStr ''$''), (KStr ''Status'', PStr ''Not Started''), (KStr ''Progress (%)'', PInt 0),
      (KStr ''Dependencies (IDs)'', PStr '''')], PDict [(KStr ''ID'', PStr ''QW2''),
      (KStr ''Task'', PStr ''Document Top 5 Critical Data Elements''), (KStr ''Owner'',
      PStr ''Lead Data Architect''), (KStr ''Effort'', PStr ''Low''), (KStr ''Cost'',
      PStr ''$''), (KStr ''Status'', PStr ''Not Started''), (KStr ''Progress (%)'', PInt 0),
      (KStr ''Dependencies (IDs)'', PStr '''')], PDict [(KStr ''ID'', PStr ''QW3''),
      (KStr ''Task'', PStr ''Conduct Data Literacy Survey''), (KStr ''Owner'', PStr ''CDO''),
      (KStr ''Effort'', PStr ''Low''), (KStr ''Cost'', PStr ''$''), (KStr ''Status'',
      PStr ''Not Started''), (KStr ''Progress (%)'', PInt 0), (KStr ''Dependencies (IDs)'',
      PStr '''')]]), (KStr ''Mid-Term (3-12 Months)'', PList [PDict [(KStr ''ID'',
      PStr ''MT1''), (KStr ''Task'', PStr ''Establish Data Governance Council''),
      (KStr ''Owner'', PStr ''CDO''), (KStr ''Effort'', PStr ''High''), (KStr ''Cost'',
      PStr ''$$''), (KStr ''Status'', PStr ''Not Started''), (KStr ''Progress (%)'', PInt 0),
      (KStr ''Dependencies (IDs)'', PStr ''QW3'')], PDict [(KStr ''ID'', PStr ''MT2''),
      (KStr ''Task'', PStr ''Implement Master Data Management (MDM) for Customer Domain''),
      (KStr ''Owner'', PStr ''Lead Data Architect''), (KStr ''Effort'', PStr ''High''),
      (KStr ''Cost'', PStr ''$$$''), (KStr ''Status'', PStr ''Not Started''),
      (KStr ''Progress (%)'', PInt 0), (KStr ''Dependencies (IDs)'', PStr ''QW2,MT1'')],
      PDict [(KStr ''ID'', PStr ''MT3''), (KStr ''Task'',
      PStr ''Roll out Self-Service BI Tool Training''), (KStr ''Owner'',
      PStr ''Head of Operations''), (KStr ''Effort'', PStr ''Medium''), (KStr ''Cost'',
      PStr ''$$''), (KStr ''Status'', PStr ''Not Started''), (KStr ''Progress (%)'', PInt 0),
      (KStr ''Dependencies (IDs)'', PStr ''MT1'')]]), (KStr ''Long-Term (12+ Months)'',
      PList [PDict [(KStr ''ID'', PStr ''LT1''), (KStr ''Task'',
      PStr ''Migrate to Cloud Data Warehouse''), (KStr ''Owner'',
      PStr ''Lead Data Architect''), (KStr ''Effort'', PStr ''Very High''), (KStr ''Cost'',
      PStr ''$$$$$''), (KStr ''Status'', PStr ''Not Started''), (KStr ''Progress (%)'',
      PInt 0), (KStr ''Dependencies (IDs)'', PStr ''MT2'')], PDict [(KStr ''ID'',
      PStr ''LT2''), (KStr ''Task'', PStr ''Develop Predictive Maintenance Model''),
      (KStr ''Owner'', PStr ''Data Scientist''), (KStr ''Effort'', PStr ''High''),
      (KStr ''Cost'', PStr ''$$$''), (KStr ''Status'', PStr ''Not Started''),
      (KStr ''Progress (%)'', PInt 0), (KStr ''Dependencies (IDs)'', PStr ''LT1'')],
      PDict [(KStr ''ID'', PStr ''LT3''), (KStr ''Task'',
      PStr ''Integrate AI for Customer Personalization''), (KStr ''Owner'',
      PStr ''Marketing Manager''), (KStr ''Effort'', PStr ''High''), (KStr ''Cost'',
      PStr ''$$$$''), (KStr ''Status'', PStr ''Not Started''), (KStr ''Progress (%)'',
      PInt 0), (KStr ''Dependencies (IDs)'', PStr ''MT2,LT1'')]])]"

definition default_maturity_criteria :: "pydict" where
  "default_maturity_criteria =
     [(KStr ''Strategy & Vision'', PDict [(KInt 1,
      PStr ''Data strategy undefined or ad-hoc.''), (KInt 2,
      PStr (''Basic awareness of data'' @ [CHR 0x27] @ ''s potential; strategy documented but not integrated.'')),
      (KInt 3,
      PStr ''Defined data strategy aligned with some business units; roadmap exists.''),
      (KInt 4,
      PStr ''Enterprise-wide data strategy actively managed, measured, and linked to business outcomes.''),
      (KInt 5,
      PStr ''Data strategy drives business innovation; predictive and adaptive.'')]),
      (KStr ''Data Governance'', PDict [(KInt 1,
      PStr ''No formal governance; data managed locally.''), (KInt 2,
      PStr ''Basic policies emerging; some roles defined (e.g., DBAs).''), (KInt 3,
      PStr ''Formal governance program established; stewards assigned; core policies defined.''),
      (KInt 4,
      PStr ''Governance framework consistently enforced; metrics tracked; policies cover most data.''),
      (KInt 5,
      PStr ''Proactive governance integrated into lifecycle; automated policy enforcement; continuous improvement.'')]),
      (KStr ''Data Quality'', PDict [(KInt 1,
      PStr ''Data quality unknown or poor; reactive fixes.''), (KInt 2,
      PStr ''Basic DQ checks implemented in some systems; awareness growing.''), (KInt 3,
      PStr ''Defined DQ processes and rules; monitoring in place for critical data.''),
      (KInt 4,
      PStr ''DQ metrics actively managed and reported; root cause analysis performed.''),
      (KInt 5,
      PStr ''Proactive DQ management embedded; automated remediation; DQ culture established.'')]),
      (KStr ''Technology & Architecture'', PDict [(KInt 1,
      PStr ''Siloed systems; limited integration; basic reporting tools.''), (KInt 2,
      PStr ''Some data consolidation (e.g., basic data mart); standard reporting tools used.''),
      (KInt 3,
      PStr ''Defined architecture (e.g., data warehouse); integration patterns established; BI tools available.''),
      (KInt 4,
      PStr ''Modern, scalable platform (e.g., cloud DWH/Lakehouse); self-service analytics enabled; metadata management tools.''),
      (KInt 5,
      PStr ''Flexible, integrated architecture supporting advanced analytics/AI; automated data pipelines; data fabric concepts.'')]),
      (KStr ''People & Skills'', PDict [(KInt 1,
      PStr ''Limited data skills; reliance on IT.''), (KInt 2,
      PStr ''Some analysts present; basic data literacy in pockets.''), (KInt 3,
      PStr ''Defined data roles; formal training programs initiated; growing data literacy.''),
      (KInt 4,
      PStr ''Data skills mapped and developed strategically; data literacy widespread; collaboration between IT/business.''),
      (KInt 5,
      PStr ''Data-centric culture; specialized skills available (AI/ML); continuous learning environment.'')]),
      (KStr ''Data Usage & Analytics'', PDict [(KInt 1,
      PStr ''Basic historical reporting (spreadsheets, static reports).''), (KInt 2,
      PStr ''Standardized operational reporting; some ad-hoc querying.''), (KInt 3,
      PStr ''Interactive dashboards and BI; descriptive analytics common.''), (KInt 4,
      PStr ''Predictive analytics used in key areas; self-service analytics widely adopted.''),
      (KInt 5,
      PStr ''Prescriptive analytics and AI drive decisions; data monetization explored; embedded analytics.'')]),
      (KStr ''Innovation & Value'', PDict [(KInt 1,
      PStr ''Data seen as an operational byproduct.''), (KInt 2,
      PStr ''Data used for basic cost savings or efficiency.''), (KInt 3,
      PStr ''Data recognized as an asset; used to improve specific processes or products.''),
      (KInt 4,
      PStr ''Data actively used for competitive advantage, new revenue streams, or strategic insights.''),
      (KInt 5,
      PStr ''Data is central to innovation; drives new business models; ecosystem data sharing.'')])]"

definition default_dq_rules_config :: pydict where
  "default_dq_rules_config =
     [(KStr ''completeness_cols'',
         PList [PStr ''CustomerID'', PStr ''TransactionAmount'', PStr ''SatisfactionScore'']),
      (KStr ''uniqueness_col'', PStr ''CustomerID''),
      (KStr ''timeliness_col'', PStr ''PurchaseDate''),
      (KStr ''timeliness_days'', PInt 90),
      (KStr ''validity_col'', PStr ''TransactionAmount''),
      (KStr ''validity_condition'', PStr ''>= 0''),
      (KStr ''consistency_col'', PStr ''SatisfactionScore''),
      (KStr ''consistency_range'', PTuple [PInt 1, PInt 5])]"

text \<open>\<^verbatim>\<open>pd.DataFrame(default_raci_data).set_index('Activity')\<close>\<close>

definition default_raci_frame :: dataframe where
  "default_raci_frame =
     (case set_index (frame_of_columns default_raci_data) ''Activity'' of
        Inr df \<Rightarrow> df
      | Inl e \<Rightarrow> frame_of_columns default_raci_data)"

text \<open>\<^verbatim>\<open>{category: pd.DataFrame(items) for category, items in default_roadmap_items.items()}\<close>\<close>

definition default_roadmap_data :: "pylib \<Rightarrow> pyval" where
  "default_roadmap_data L =
     (case frames_of_dict L default_roadmap_items of
        Inr d \<Rightarrow> PDict d
      | Inl e \<Rightarrow> PDict [])"
definition APP_VERSION :: string where
  "APP_VERSION = ''2.4 (Advanced Placeholders)''"

definition APP_LOCATION :: string where
  "APP_LOCATION = ''London, England, UK''"

definition empty_frame :: dataframe where
  "empty_frame = \<lparr>df_index_name = None, df_index = [], df_columns = []\<rparr>"

text \<open>The dict \<^verbatim>\<open>defaults\<close> of \<^verbatim>\<open>init_session_state\<close>, in the source's order.\<close>

definition defaults :: "pylib \<Rightarrow> (string \<times> pyval) list" where
  "defaults L =
     [(''app_version'', PStr APP_VERSION),
      (''state_initialized'', PBool True),
      (''current_tab'', PStr ([CHR 0xF0, CHR 0x9F, CHR 0x8F, CHR 0xA0] @ '' Landing Page'')),
      (''project_metadata'',
         PDict [(KStr ''Project Name'', PStr ''Enterprise Data Strategy Initiative''),
                (KStr ''Project Lead'', PStr ''TBD''),
                (KStr ''Client Name'', PStr ''Internal''),
                (KStr ''Generated Date'', PStr (strftime L (get_current_time L) ''%Y-%m-%d'')),
                (KStr ''Generated Time'',
                   PStr (if ts_tz (get_current_time L) \<noteq> None
                         then strftime L (get_current_time L) ''%H:%M:%S %Z''
                         else strftime L (get_current_time L) ''%H:%M:%S'')),
                (KStr ''Generated From'', PStr APP_LOCATION)]),
      (''selected_sector'', PStr (mock_sectors ! 0)),
      (''uploaded_logo_bytes'', PNone),
      (''exec_summary_text'', PStr ''*(Auto-generated summary - requires analysis)*''),
      (''editable_exec_summary'', PStr []),
      (''show_summary_edit'', PBool False),
      (''data_trust_score'', PInt 0),
      (''avg_stakeholder_confidence'', PStr ''N/A''),
      (''interview_confidence'', PDict []),
      (''interview_notes'', PDict []),
      (''interview_questions'', PDict default_interview_questions),
      (''uploaded_interview_files'', PDict []),
      (''current_data'', PNone),
      (''current_data_filename'', PNone),
      (''data_analysis_done'', PBool False),
      (''dama_results'', PDict []),
      (''mock_sql'', PStr ''-- Analysis not run --''),
      (''profiling_results'', PNone),
      (''data_analysis_issues'', PDict []),
      (''dq_rules_config'', PDict default_dq_rules_config),
      (''governance_scores'',
         PDict [(KStr ''Policy & Standards'', PInt 50), (KStr ''Data Stewardship'', PInt 40),
                (KStr ''Data Quality Framework'', PInt 60), (KStr ''Metadata Management'', PInt 30),
                (KStr ''Security & Privacy'', PInt 70), (KStr ''Compliance Adherence'', PInt 65)]),
      (''raci_df_json'', PFrame default_raci_frame),
      (''selected_compliance'', PList (map PStr (take 2 mock_compliance_standards))),
      (''business_glossary'',
         PDict [(KStr ''Data Maturity'',
                   PStr ''The extent to which an organization utilizes its data resources...''),
                (KStr ''Data Governance'',
                   PStr ''The exercise of authority and control over data assets...''),
                (KStr ''MDM'', PStr ''Master Data Management disciplines...'')]),
      (''maturity_scores'', PDict (map (\<lambda>d. (KStr d, PInt 2)) mock_maturity_dimensions)),
      (''maturity_evidence'', PDict (map (\<lambda>d. (KStr d, PStr [])) mock_maturity_dimensions)),
      (''maturity_criteria'', PDict default_maturity_criteria),
      (''maturity_persona'', PStr (mock_personas ! 0)),
      (''overall_maturity'', PFloat 0),
      (''maturity_assessments_history'', PDict []),
      (''compare_assessment_ts1'', PNone),
      (''compare_assessment_ts2'', PNone),
      (''roadmap_data'', default_roadmap_data L),
      (''full_roadmap_for_export'', PFrame empty_frame),
      (''export_options'',
         PDict [(KStr ''include_branding'', PBool False), (KStr ''include_glossary'', PBool True),
                (KStr ''include_raw_data'', PBool False),
                (KStr ''selected_sections'', PList (map PStr TABS_keys))]),
      (''simulated_reports'', PDict [])]"

subsection \<open>The session state and its initialisation\<close>

type_synonym session = "string \<rightharpoonup> pyval"

fun is_dict :: "pyval \<Rightarrow> bool" where
  "is_dict (PDict d) = True"
| "is_dict v = False"

fun is_str :: "pyval \<Rightarrow> bool" where
  "is_str (PStr s) = True"
| "is_str v = False"

text \<open>
  \<^verbatim>\<open>for key, value in defaults.items(): if key not in st.session_state or force_defaults:
  st.session_state[key] = copy of value\<close>
\<close>

fun apply_defaults :: "bool \<Rightarrow> (string \<times> pyval) list \<Rightarrow> session \<Rightarrow> session" where
  "apply_defaults force [] st = st"
| "apply_defaults force ((key, v) # rest) st =
     apply_defaults force rest (if st key = None \<or> force then st(key \<mapsto> v) else st)"

text \<open>The four \<^verbatim>\<open>if key not in ... or not isinstance(..., dict) or force_defaults\<close> repairs.\<close>

definition ensure_dict :: "bool \<Rightarrow> string \<Rightarrow> pyval \<Rightarrow> session \<Rightarrow> session" where
  "ensure_dict force key v st =
     (if (case st key of None \<Rightarrow> True | Some x \<Rightarrow> \<not> is_dict x) \<or> force
      then st(key \<mapsto> v) else st)"

definition init_session_state :: "pylib \<Rightarrow> bool \<Rightarrow> session \<Rightarrow> session" where
  "init_session_state L force_defaults st =
     (if st ''state_initialized'' \<noteq> None \<and> \<not> force_defaults then st
      else
        (let st1 = apply_defaults force_defaults (defaults L) st;
             st2 = ensure_dict force_defaults ''interview_questions''
                     (PDict default_interview_questions) st1;
             st3 = ensure_dict force_defaults ''maturity_evidence''
                     (PDict (map (\<lambda>d. (KStr d, PStr [])) mock_maturity_dimensions)) st2;
             st4 = ensure_dict force_defaults ''maturity_assessments_history'' (PDict []) st3;
             st5 = ensure_dict force_defaults ''dq_rules_config'' (PDict default_dq_rules_config) st4
         in st5(''state_initialized'' \<mapsto> PBool True)))"
subsection \<open>JSON documents\<close>

datatype json =
    JNull
  | JBool bool
  | JInt int
  | JFloat rat
  | JNaN
  | JStr string
  | JArr "json list"
  | JObj "(string \<times> json) list"

fun str_nat :: "nat \<Rightarrow> string" where
  "str_nat n =
     (if n < 10 then [char_of (48 + n)]
      else str_nat (n div 10) @ [char_of (48 + n mod 10)])"

definition str_int :: "int \<Rightarrow> string" where
  "str_int i = (if i < 0 then ''-'' @ str_nat (nat (- i)) else str_nat (nat i))"

text \<open>
  \<^verbatim>\<open>json.dump\<close> turns a key that is an int, a float, a bool or None into a string and
  refuses any other key that is no string.
\<close>

fun json_key :: "pylib \<Rightarrow> pykey \<Rightarrow> exn + string" where
  "json_key L (KStr s) = Inr s"
| "json_key L (KInt i) = Inr (str_int i)"
| "json_key L (KBool b) = Inr (if b then ''true'' else ''false'')"
| "json_key L KNone = Inr ''null''"
| "json_key L (KFloat r) = Inr (float_repr L r)"
| "json_key L (KTimestamp t) =
     Inl (Exn TypeError ''keys must be str, int, float, bool or None, not Timestamp'')"

text \<open>
  \<^verbatim>\<open>json.dump\<close>: a tuple is written as an array; a value of any other type than None,
  bool, int, float, str, list, tuple and dict is a TypeError.
\<close>

fun json_dump :: "pylib \<Rightarrow> pyval \<Rightarrow> exn + json" where
  "json_dump L PNone = Inr JNull"
| "json_dump L (PBool b) = Inr (JBool b)"
| "json_dump L (PInt i) = Inr (JInt i)"
| "json_dump L (PFloat r) = Inr (JFloat r)"
| "json_dump L (NpFloat64 r) = Inr (JFloat r)"
| "json_dump L PNaN = Inr JNaN"
| "json_dump L (PStr s) = Inr (JStr s)"
| "json_dump L (PList xs) =
     (case collect (map (json_dump L) xs) of Inl e \<Rightarrow> Inl e | Inr js \<Rightarrow> Inr (JArr js))"
| "json_dump L (PTuple xs) =
     (case collect (map (json_dump L) xs) of Inl e \<Rightarrow> Inl e | Inr js \<Rightarrow> Inr (JArr js))"
| "json_dump L (PDict d) =
     (case collect (map (\<lambda>kv. case json_key L (fst kv) of
                                 Inl e \<Rightarrow> Inl e
                               | Inr k \<Rightarrow> (case json_dump L (snd kv) of
                                             Inl e \<Rightarrow> Inl e
                                           | Inr j \<Rightarrow> Inr (k, j))) d) of
        Inl e \<Rightarrow> Inl e
      | Inr kjs \<Rightarrow> Inr (JObj kjs))"
| "json_dump L v = Inl (Exn TypeError ''Object is not JSON serializable'')"

text \<open>\<^verbatim>\<open>json.load\<close>: an object becomes a dict; of a repeated key the last value stays.\<close>

fun dict_of_pairs :: "('k \<times> 'v) list \<Rightarrow> ('k \<times> 'v) list \<Rightarrow> ('k \<times> 'v) list" where
  "dict_of_pairs acc [] = acc"
| "dict_of_pairs acc ((k, v) # rest) = dict_of_pairs (dict_set acc k v) rest"

fun json_load :: "json \<Rightarrow> pyval" where
  "json_load JNull = PNone"
| "json_load (JBool b) = PBool b"
| "json_load (JInt i) = PInt i"
| "json_load (JFloat r) = PFloat r"
| "json_load JNaN = PNaN"
| "json_load (JStr s) = PStr s"
| "json_load (JArr js) = PList (map json_load js)"
| "json_load (JObj kjs) =
     PDict (dict_of_pairs [] (map (\<lambda>kj. (KStr (fst kj), json_load (snd kj))) kjs))"

subsection \<open>Saving\<close>

text \<open>
  The snapshot file: absent, present but unreadable (opening or parsing it raises the
  exception it carries), or a JSON document.
\<close>

datatype state_file = NoFile | BadFile exn | JsonFile json

datatype message =
    SaveError exn
  | LoadError exn
  | RaciMissingActivity string
  | RaciLoadFailed string exn
  | RoadmapLoadFailed string exn
  | TimestampSkipped string
  | HistoryLoadFailed string exn
  | FrameLoadFailed string exn

definition keys_to_persist :: "string list" where
  "keys_to_persist =
     [''project_metadata'', ''selected_sector'', ''uploaded_logo_bytes'',
      ''editable_exec_summary'', ''show_summary_edit'',
      ''interview_confidence'', ''interview_notes'', ''interview_questions'',
      ''uploaded_interview_files'',
      ''dq_rules_config'',
      ''governance_scores'', ''raci_df_json'', ''selected_compliance'', ''business_glossary'',
      ''maturity_scores'', ''maturity_evidence'', ''maturity_assessments_history'',
      ''roadmap_data'',
      ''export_options'']"

text \<open>\<^verbatim>\<open>ts.isoformat() if isinstance(ts, pd.Timestamp) else str(ts)\<close> on a dict key.\<close>

fun key_text :: "pylib \<Rightarrow> pykey \<Rightarrow> string" where
  "key_text L (KTimestamp t) = isoformat L t"
| "key_text L (KStr s) = s"
| "key_text L (KInt i) = str_int i"
| "key_text L (KBool b) = (if b then ''True'' else ''False'')"
| "key_text L KNone = ''None''"
| "key_text L (KFloat r) = float_repr L r"

text \<open>
  \<^verbatim>\<open>{cat: df.to_dict(orient='records') for cat, df in value.items()
  if isinstance(df, pd.DataFrame)}\<close>
\<close>

fun roadmap_records :: "pydict \<Rightarrow> pydict \<Rightarrow> pydict" where
  "roadmap_records acc [] = acc"
| "roadmap_records acc ((cat, PFrame df) # rest) =
     roadmap_records (dict_set acc cat (PList (to_dict_records df))) rest"
| "roadmap_records acc ((cat, v) # rest) = roadmap_records acc rest"

text \<open>
  One pass of the loop over \<^verbatim>\<open>keys_to_persist\<close>, for a key the state holds: the value
  written under the key, \<open>None\<close> when no branch takes the value and the key is left out.
\<close>

definition persist_value :: "pylib \<Rightarrow> string \<Rightarrow> pyval \<Rightarrow> exn + pyval option" where
  "persist_value L key v =
     (case v of
        PFrame df \<Rightarrow>
          (if key = ''raci_df_json''
           then (case reset_index df of
                   Inl e \<Rightarrow> Inl e
                 | Inr df' \<Rightarrow> Inr (Some (PStr (to_json_split L df'))))
           else Inr (Some (PStr (to_json_split L df))))
      | PDict d \<Rightarrow>
          (if key = ''roadmap_data'' then Inr (Some (PDict (roadmap_records [] d)))
           else if key = ''maturity_assessments_history''
           then Inr (Some (PDict (dict_of_pairs []
                                    (map (\<lambda>kv. (KStr (key_text L (fst kv)), snd kv)) d))))
           else Inr (Some v))
      | PList xs \<Rightarrow> Inr (Some v)
      | PStr s \<Rightarrow> Inr (Some v)
      | PInt i \<Rightarrow> Inr (Some v)
      | PFloat r \<Rightarrow> Inr (Some v)
      | NpFloat64 r \<Rightarrow> Inr (Some v)
      | PNaN \<Rightarrow> Inr (Some v)
      | PBool b \<Rightarrow> Inr (Some v)
      | PNone \<Rightarrow> Inr (Some v)
      | NpInt i \<Rightarrow> Inr (Some (PInt i))
      | NpFloat r \<Rightarrow> Inr (Some (PFloat r))
      | NpArray xs \<Rightarrow> Inr (Some (PList xs))
      | _ \<Rightarrow> Inr None)"

fun state_to_save :: "pylib \<Rightarrow> session \<Rightarrow> string list \<Rightarrow> exn + (string \<times> pyval) list" where
  "state_to_save L st [] = Inr []"
| "state_to_save L st (key # keys) =
     (case st key of
        None \<Rightarrow> state_to_save L st keys
      | Some v \<Rightarrow>
          (case persist_value L key v of
             Inl e \<Rightarrow> Inl e
           | Inr w \<Rightarrow>
               (case state_to_save L st keys of
                  Inl e \<Rightarrow> Inl e
                | Inr rest \<Rightarrow> Inr (case w of None \<Rightarrow> rest | Some x \<Rightarrow> (key, x) # rest))))"

text \<open>
  \<^verbatim>\<open>save_app_state_json()\<close>. \<open>open_error\<close> is the exception \<^verbatim>\<open>open(STATE_FILE, 'w')\<close>
  raises, if it raises one. Opening truncates the file and \<^verbatim>\<open>json.dump\<close> writes as it
  goes, so a dump that fails leaves a text that no longer parses. The result is the new
  file, the error shown in the sidebar and the boolean the function returns; \<open>Inl\<close> is an
  exception raised while the snapshot is assembled, outside the \<^verbatim>\<open>try\<close>.
\<close>

definition save_app_state_json ::
  "pylib \<Rightarrow> exn option \<Rightarrow> session \<Rightarrow> state_file \<Rightarrow> exn + (state_file \<times> message list \<times> bool)" where
  "save_app_state_json L open_error st file =
     (case state_to_save L st keys_to_persist of
        Inl e \<Rightarrow> Inl e
      | Inr kvs \<Rightarrow>
          (case open_error of
             Some e \<Rightarrow> Inr (file, [SaveError e], False)
           | None \<Rightarrow>
               (case json_dump L (PDict (map (\<lambda>kv. (KStr (fst kv), snd kv)) kvs)) of
                  Inl e \<Rightarrow> Inr (BadFile (Exn ValueError ''Expecting value''), [SaveError e], False)
                | Inr j \<Rightarrow> Inr (JsonFile j, [], True))))"
subsection \<open>Loading\<close>

text \<open>
  The branch for \<^verbatim>\<open>raci_df_json\<close>: the table is read back, and \<^verbatim>\<open>Activity\<close> becomes its
  index when it is one of the columns; otherwise, or when reading raises, the built-in
  table is stored and a warning is shown.
\<close>

definition load_raci :: "pylib \<Rightarrow> string \<Rightarrow> string \<Rightarrow> pyval \<times> message list" where
  "load_raci L key text =
     (case read_json_split L text of
        Inl e \<Rightarrow> (PFrame default_raci_frame, [RaciLoadFailed key e])
      | Inr df \<Rightarrow>
          if ''Activity'' \<in> set (column_names df)
          then (case set_index df ''Activity'' of
                  Inl e \<Rightarrow> (PFrame default_raci_frame, [RaciLoadFailed key e])
                | Inr df' \<Rightarrow> (PFrame df', []))
          else (PFrame default_raci_frame, [RaciMissingActivity key]))"

definition load_roadmap :: "pylib \<Rightarrow> string \<Rightarrow> pydict \<Rightarrow> pyval \<times> message list" where
  "load_roadmap L key d =
     (case frames_of_dict L d of
        Inl e \<Rightarrow> (default_roadmap_data L, [RoadmapLoadFailed key e])
      | Inr frames \<Rightarrow> (PDict frames, []))"

text \<open>
  The loop over the history: \<^verbatim>\<open>pd.Timestamp(ts_str)\<close> that raises a ValueError skips the
  entry with a warning; any other exception leaves the loop and is caught by the outer
  handler. The keys of a parsed JSON object are strings.
\<close>

fun load_history_loop ::
  "pylib \<Rightarrow> pydict \<Rightarrow> message list \<Rightarrow> pydict \<Rightarrow> exn + (pydict \<times> message list)" where
  "load_history_loop L history_data msgs [] = Inr (history_data, msgs)"
| "load_history_loop L history_data msgs ((KStr ts_str, scores) # rest) =
     (case parse_timestamp L ts_str of
        Inr t \<Rightarrow> load_history_loop L (dict_set history_data (KTimestamp t) scores) msgs rest
      | Inl e \<Rightarrow>
          if exn_cls e = ValueError
          then load_history_loop L history_data (msgs @ [TimestampSkipped ts_str]) rest
          else Inl e)"
| "load_history_loop L history_data msgs ((k, scores) # rest) =
     Inl (Exn TypeError ''Cannot convert input to Timestamp'')"

definition load_history :: "pylib \<Rightarrow> string \<Rightarrow> pydict \<Rightarrow> pyval \<times> message list" where
  "load_history L key d =
     (case load_history_loop L [] [] d of
        Inr (history_data, msgs) \<Rightarrow> (PDict history_data, msgs)
      | Inl e \<Rightarrow> (PDict [], [HistoryLoadFailed key e]))"

definition ends_with :: "string \<Rightarrow> string \<Rightarrow> bool" where
  "ends_with s suffix = (length suffix \<le> length s \<and> drop (length s - length suffix) s = suffix)"

text \<open>
  One pass of \<^verbatim>\<open>for key, value in loaded_state.items()\<close>: the chain of
  \<^verbatim>\<open>key == ... and isinstance(value, ...)\<close> tests, in the source's order.
\<close>

definition load_entry :: "pylib \<Rightarrow> string \<Rightarrow> pyval \<Rightarrow> session \<times> message list \<Rightarrow> session \<times> message list" where
  "load_entry L key v sm =
     (let st = fst sm; msgs = snd sm
      in if key = ''raci_df_json'' \<and> is_str v then
           (case v of
              PStr text \<Rightarrow> (let r = load_raci L key text in (st(key \<mapsto> fst r), msgs @ snd r))
            | _ \<Rightarrow> sm)
         else if key = ''roadmap_data'' \<and> is_dict v then
           (case v of
              PDict d \<Rightarrow> (let r = load_roadmap L key d in (st(key \<mapsto> fst r), msgs @ snd r))
            | _ \<Rightarrow> sm)
         else if key = ''maturity_assessments_history'' \<and> is_dict v then
           (case v of
              PDict d \<Rightarrow> (let r = load_history L key d in (st(key \<mapsto> fst r), msgs @ snd r))
            | _ \<Rightarrow> sm)
         else if ends_with key ''_df_json'' \<and> is_str v then
           (case v of
              PStr text \<Rightarrow>
                (case read_json_split L text of
                   Inr df \<Rightarrow> (st(key \<mapsto> PFrame df), msgs)
                 | Inl e \<Rightarrow> (st, msgs @ [FrameLoadFailed key e]))
            | _ \<Rightarrow> sm)
         else (st(key \<mapsto> v), msgs))"

fun load_entries :: "pylib \<Rightarrow> pydict \<Rightarrow> session \<times> message list \<Rightarrow> session \<times> message list" where
  "load_entries L [] sm = sm"
| "load_entries L ((k, v) # rest) sm =
     load_entries L rest (load_entry L (key_text L k) v sm)"

text \<open>
  \<^verbatim>\<open>load_app_state_json()\<close>: the new session state, the warnings and errors shown, and
  the boolean returned. A parsed document that is no object has no \<^verbatim>\<open>items\<close>, which the
  outer handler catches like a failure to parse.
\<close>

definition load_app_state_json ::
  "pylib \<Rightarrow> state_file \<Rightarrow> session \<Rightarrow> session \<times> message list \<times> bool" where
  "load_app_state_json L file st =
     (case file of
        NoFile \<Rightarrow> (init_session_state L True st, [], False)
      | BadFile e \<Rightarrow> (init_session_state L True st, [LoadError e], False)
      | JsonFile j \<Rightarrow>
          (case json_load j of
             PDict loaded_state \<Rightarrow>
               (let r = load_entries L loaded_state (st, [])
                in (fst r, snd r, True))
           | _ \<Rightarrow>
               (init_session_state L True st,
                [LoadError (Exn AttributeError ''object has no attribute items'')], False)))"

section \<open>What the claims speak about\<close>

text \<open>The value a dimension stores in \<^verbatim>\<open>results\<close>, when the dimension raises nothing.\<close>

definition dim_value :: "exn + dim_result \<Rightarrow> pyval option" where
  "dim_value r = (case r of Inl e \<Rightarrow> None | Inr x \<Rightarrow> Some (fst x))"

text \<open>The two sentinels are strings that start with \<^verbatim>\<open>N/A\<close> and with \<^verbatim>\<open>Error (\<close>.\<close>

fun is_na :: "pyval \<Rightarrow> bool" where
  "is_na (PStr s) = (take 3 s = ''N/A'')"
| "is_na v = False"

fun is_error_sentinel :: "pyval \<Rightarrow> bool" where
  "is_error_sentinel (PStr s) = (take 7 s = ''Error ('')"
| "is_error_sentinel v = False"

text \<open>A float, Python's or numpy's, between 0 and 100.\<close>

fun in_0_100 :: "pyval \<Rightarrow> bool" where
  "in_0_100 (PFloat r) = (0 \<le> r \<and> r \<le> 100)"
| "in_0_100 (NpFloat64 r) = (0 \<le> r \<and> r \<le> 100)"
| "in_0_100 v = False"

definition dim_ok :: "pyval \<Rightarrow> bool" where
  "dim_ok v = (in_0_100 v \<or> is_na v \<or> is_error_sentinel v)"

text \<open>A cell that holds a number, and the number it holds.\<close>

fun cell_number :: "cell \<Rightarrow> rat option" where
  "cell_number (CInt i) = Some (of_int i)"
| "cell_number (CFloat r) = Some r"
| "cell_number c = None"

definition is_numeric_cell :: "cell \<Rightarrow> bool" where
  "is_numeric_cell c = (cell_number c \<noteq> None)"

definition is_negative_cell :: "cell \<Rightarrow> bool" where
  "is_negative_cell c = (case cell_number c of Some x \<Rightarrow> x < 0 | None \<Rightarrow> False)"

text \<open>
  Small role-assignment tables as \<^verbatim>\<open>pd.read_json\<close> returns them, with the index as a
  column: one well formed, one with a repeated activity, one without the column
  \<^verbatim>\<open>Activity\<close>.
\<close>

definition flat_raci :: dataframe where
  "flat_raci =
     \<lparr>df_index_name = None, df_index = [CInt 0, CInt 1],
      df_columns =
        [(''Activity'', [CStr ''Define Data Quality Rules'', CStr ''Approve Master Data Changes'']),
         (''CDO'', [CStr ''A'', CStr ''A'']),
         (''IT Security'', [CStr ''I'', CStr ''R''])]\<rparr>"

definition repeated_raci :: dataframe where
  "repeated_raci =
     \<lparr>df_index_name = None, df_index = [CInt 0, CInt 1],
      df_columns =
        [(''Activity'', [CStr ''Define Data Quality Rules'', CStr ''Define Data Quality Rules'']),
         (''CDO'', [CStr ''A'', CStr ''R''])]\<rparr>"

definition renamed_raci :: dataframe where
  "renamed_raci =
     \<lparr>df_index_name = None, df_index = [CInt 0, CInt 1],
      df_columns =
        [(''Task'', [CStr ''Define Data Quality Rules'', CStr ''Approve Master Data Changes'']),
         (''CDO'', [CStr ''A'', CStr ''A''])]\<rparr>"

text \<open>Reading a natural number written in decimal digits.\<close>

fun digits_value :: "nat \<Rightarrow> string \<Rightarrow> nat option" where
  "digits_value acc [] = Some acc"
| "digits_value acc (c # cs) =
     (if 48 \<le> (of_char c :: nat) \<and> (of_char c :: nat) \<le> 57
      then digits_value (10 * acc + (of_char c - 48)) cs else None)"

text \<open>
  A library to run the definitions on concrete inputs: one zone at offset 0, strings that
  are neither numbers nor dates, a timestamp written as its nanoseconds, a table written
  as a name that reads back as the same table, no date kept from a column of several
  zones, and an overflow error outside the range of nanoseconds.
\<close>

definition demo_lib :: pylib where
  "demo_lib =
     \<lparr>float_repr = (\<lambda>r. ''float''),
      py_str = (\<lambda>v. case v of PInt i \<Rightarrow> str_int i | _ \<Rightarrow> ''object''),
      to_json_split =
        (\<lambda>df. if df = flat_raci then ''flat_raci''
              else if df = repeated_raci then ''repeated_raci''
              else if df = renamed_raci then ''renamed_raci''
              else ''table''),
      read_json_split =
        (\<lambda>s. if s = ''flat_raci'' then Inr flat_raci
             else if s = ''repeated_raci'' then Inr repeated_raci
             else if s = ''renamed_raci'' then Inr renamed_raci
             else Inl (Exn ValueError ''Expected object or value'')),
      frame_of_other = (\<lambda>v. Inl (Exn ValueError ''DataFrame constructor not properly called'')),
      isoformat = (\<lambda>t. str_int (ts_ns t)),
      parse_timestamp =
        (\<lambda>s. case (if s = [] then None else digits_value 0 s) of
               Some n \<Rightarrow> Inr \<lparr>ts_ns = int n, ts_tz = None\<rparr>
             | None \<Rightarrow> Inl (Exn ValueError ''could not convert string to Timestamp'')),
      strftime = (\<lambda>t f. f),
      numeric_of_object = (\<lambda>c. Inr None),
      datetime_of_object = (\<lambda>c. Inr None),
      compare_nonscalar = (\<lambda>ge scores bound. Inl (Exn ValueError ''Lengths must match'')),
      timedelta_of = (\<lambda>v. Inl (Exn TypeError ''Invalid type. Must be int or float.'')),
      unify_zone = (\<lambda>ts t. Inr None),
      sub_out_of_bounds = (\<lambda>t td. Inl (Exn OverflowError ''Out of bounds nanosecond timestamp'')),
      utc_offset = (\<lambda>z t. 0),
      localize = (\<lambda>z t. Inr t),
      app_timezone = Some ''Europe/London'',
      clock_ns = 1000 * 86400000000000,
      local_wall_ns = 1000 * 86400000000000\<rparr>"

text \<open>
  A configuration whose column settings have the types the rule configuration gives them:
  \<^verbatim>\<open>completeness_cols\<close> is a list of names, each of the four other columns is a name or
  None. The window, the condition and the range are left free.
\<close>

fun plain_column :: "pyval \<Rightarrow> bool" where
  "plain_column PNone = True"
| "plain_column (PStr s) = True"
| "plain_column v = False"

definition plain_config :: "pydict \<Rightarrow> bool" where
  "plain_config config =
     ((case dict_get config ''completeness_cols'' (PList []) of
         PList xs \<Rightarrow> list_all plain_column xs
       | _ \<Rightarrow> False) \<and>
      plain_column (dict_get config ''uniqueness_col'' PNone) \<and>
      plain_column (dict_get config ''timeliness_col'' PNone) \<and>
      plain_column (dict_get config ''validity_col'' PNone) \<and>
      plain_column (dict_get config ''consistency_col'' PNone))"

definition dimension_names :: "string list" where
  "dimension_names = [''Completeness'', ''Uniqueness'', ''Timeliness'', ''Validity'', ''Consistency'']"

text \<open>
  Two small datasets: one with the four columns the default rules name, and one, as an
  uploaded file may be, with the identifier column only.
\<close>

definition sample_df :: dataframe where
  "sample_df =
     \<lparr>df_index_name = None,
      df_index = [CInt 0, CInt 1, CInt 2, CInt 3],
      df_columns =
        [(''CustomerID'', [CInt 1, CInt 2, CInt 2, CNull]),
         (''PurchaseDate'', [CTime \<lparr>ts_ns = 995 * 86400000000000, ts_tz = None\<rparr>,
                             CTime \<lparr>ts_ns = 100 * 86400000000000, ts_tz = None\<rparr>,
                             CStr ''soon'', CNull]),
         (''TransactionAmount'', [CFloat 10, CFloat (- 5), CFloat 20, CInt 3]),
         (''SatisfactionScore'', [CFloat 3, CFloat 7, CNull, CFloat 5])]\<rparr>"

definition ids_only_df :: dataframe where
  "ids_only_df =
     \<lparr>df_index_name = None,
      df_index = [CInt 0, CInt 1],
      df_columns = [(''CustomerID'', [CInt 1, CInt 2])]\<rparr>"

text \<open>
  The values that the round trip through the snapshot file reproduces.

  A plain value is stable when \<^verbatim>\<open>json.load\<close> of its \<^verbatim>\<open>json.dump\<close> is the value itself:
  None, booleans, numbers, strings, lists of stable values, and dicts with distinct
  string keys and stable values. A tuple is not (it comes back as a list), nor is a dict
  with a key that is no string (the key comes back as a string).
\<close>

fun is_str_key :: "pykey \<Rightarrow> bool" where
  "is_str_key (KStr s) = True"
| "is_str_key k = False"

fun json_stable :: "pyval \<Rightarrow> bool" where
  "json_stable PNone = True"
| "json_stable (PBool b) = True"
| "json_stable (PInt i) = True"
| "json_stable (PFloat r) = True"
| "json_stable PNaN = True"
| "json_stable (PStr s) = True"
| "json_stable (PList xs) = list_all json_stable xs"
| "json_stable (PDict d) =
     (distinct (map fst d) \<and> list_all (\<lambda>kv. is_str_key (fst kv) \<and> json_stable (snd kv)) d)"
| "json_stable v = False"

fun is_time_cell :: "cell \<Rightarrow> bool" where
  "is_time_cell (CTime t) = True"
| "is_time_cell c = False"

text \<open>
  A table of a roadmap category that comes back from its records: it has at least one
  row, the index \<open>0, 1, ...\<close> without a name, and no timestamp cell.
\<close>

definition plain_frame :: "dataframe \<Rightarrow> bool" where
  "plain_frame df =
     (df_wf df \<and> 0 < df_len df \<and> df_index_name df = None \<and>
      df_index df = range_index (df_len df) \<and>
      list_all (\<lambda>c. list_all (\<lambda>x. \<not> is_time_cell x) (snd c)) (df_columns df))"

definition roadmap_stable :: "pydict \<Rightarrow> bool" where
  "roadmap_stable d =
     (distinct (map fst d) \<and>
      list_all (\<lambda>kv. is_str_key (fst kv) \<and>
                    (case snd kv of PFrame df \<Rightarrow> plain_frame df | _ \<Rightarrow> False)) d)"

text \<open>
  The role-assignment table comes back when its index is named \<^verbatim>\<open>Activity\<close>, no column
  has that name, and pandas reads back the text it wrote for the table with the index
  as a column.
\<close>

definition raci_stable :: "pylib \<Rightarrow> dataframe \<Rightarrow> bool" where
  "raci_stable L df =
     (df_index_name df = Some ''Activity'' \<and> ''Activity'' \<notin> set (column_names df) \<and>
      read_json_split L
        (to_json_split L \<lparr>df_index_name = None, df_index = range_index (df_len df),
                           df_columns = (''Activity'', df_index df) # df_columns df\<rparr>) =
        Inr \<lparr>df_index_name = None, df_index = range_index (df_len df),
             df_columns = (''Activity'', df_index df) # df_columns df\<rparr>)"

text \<open>
  The history comes back when its keys are timestamps that \<^verbatim>\<open>pd.Timestamp\<close> reads back
  from their \<^verbatim>\<open>isoformat\<close>, and its values are stable.
\<close>

definition history_stable :: "pylib \<Rightarrow> pydict \<Rightarrow> bool" where
  "history_stable L d =
     (distinct (map fst d) \<and>
      list_all (\<lambda>kv. (case fst kv of
                       KTimestamp t \<Rightarrow> parse_timestamp L (isoformat L t) = Inr t
                     | _ \<Rightarrow> False) \<and>
                    json_stable (snd kv)) d)"

definition roundtrip_value :: "pylib \<Rightarrow> string \<Rightarrow> pyval \<Rightarrow> bool" where
  "roundtrip_value L key v =
     (if key = ''raci_df_json'' then (case v of PFrame df \<Rightarrow> raci_stable L df | _ \<Rightarrow> False)
      else if key = ''roadmap_data'' then (case v of PDict d \<Rightarrow> roadmap_stable d | _ \<Rightarrow> False)
      else if key = ''maturity_assessments_history''
      then (case v of PDict d \<Rightarrow> history_stable L d | _ \<Rightarrow> False)
      else json_stable v)"

text \<open>The values no branch of the save loop takes: the key is left out of the file.\<close>

fun unrepresentable :: "pyval \<Rightarrow> bool" where
  "unrepresentable (PBytes s) = True"
| "unrepresentable (PTuple xs) = True"
| "unrepresentable (PTimestamp t) = True"
| "unrepresentable v = False"

section \<open>Properties of the scorer\<close>

subsection \<open>Rounding and percentages\<close>

text \<open>
  Rounding to the nearest double leaves the sign, never passes an integer below \<open>2\<^sup>5\<^sup>2\<close>,
  and moves a number by at most \<open>2\<^sup>-\<^sup>5\<^sup>3\<close> of its size. A percentage computed from counts
  \<open>n \<le> d\<close> is therefore a double in \<open>[0, 100]\<close> within \<open>200 / 2\<^sup>5\<^sup>3\<close> of \<open>100 n / d\<close>,
  and its rounding is the double of a tenth that is nearest to \<open>100 n / d\<close> as long as
  \<open>d \<le> 2\<^sup>4\<^sup>0\<close> (a tie between two tenths can go either way).
\<close>


lemma pow2_power_int: "pow2 e = power_int 2 e"
  by (simp add: pow2_def power_int_def inverse_eq_divide power_one_over)

lemma pow2_pos: "0 < pow2 e"
  by (simp add: pow2_power_int)

lemma pow2_add: "pow2 (a + b) = pow2 a * pow2 b"
  by (simp add: pow2_power_int power_int_add)

lemma pow2_mono: "a \<le> b \<Longrightarrow> pow2 a \<le> pow2 b"
  by (simp add: pow2_power_int power_int_increasing)

lemma pow2_strict_mono: "a < b \<Longrightarrow> pow2 a < pow2 b"
  by (simp add: pow2_power_int power_int_strict_increasing)

lemma pow2_le_D: "pow2 a \<le> pow2 b \<Longrightarrow> a \<le> b"
  using pow2_strict_mono[of b a] by (cases "a \<le> b") auto

lemma pow2_nat: "pow2 (int n) = 2 ^ n"
  by (simp add: pow2_def)

lemma pow2_neg: "pow2 (- int n) = 1 / 2 ^ n"
  by (cases "n = 0") (simp_all add: pow2_def)

lemma float_exponent_le:
  assumes "x \<noteq> 0"
  shows "pow2 (float_exponent x) \<le> \<bar>x\<bar>"
proof -
  define a where "a = \<bar>x\<bar>"
  obtain p q where pq: "quotient_of a = (p, q)" by (cases "quotient_of a")
  have q: "0 < q" using quotient_of_denom_pos[OF pq] .
  have a: "a = of_int p / of_int q" using quotient_of_div[OF pq] .
  have apos: "0 < a" using assms by (simp add: a_def)
  have p: "0 < p" using apos q by (simp add: a zero_less_divide_iff)
  define e where "e = bitlen p - bitlen q"
  have bp: "2 ^ nat (bitlen p - 1) \<le> p" using bitlen_bounds[OF p] by simp
  have bq: "q < 2 ^ nat (bitlen q)" using bitlen_bounds[OF q] by simp
  have bp1: "1 \<le> bitlen p" using p by (simp add: bitlen_alt_def)
  have bq0: "0 \<le> bitlen q" by (rule bitlen_nonneg)
  have lo: "pow2 (e - 1) \<le> a"
  proof -
    have "pow2 (e - 1) * pow2 (bitlen q) = pow2 (bitlen p - 1)"
      unfolding pow2_add[symmetric] e_def by simp
    also have "\<dots> = 2 ^ nat (bitlen p - 1)" using bp1 by (simp add: pow2_def)
    also have "\<dots> \<le> of_int p" using bp by (metis of_int_le_iff of_int_numeral of_int_power)
    finally have 1: "pow2 (e - 1) * pow2 (bitlen q) \<le> of_int p" .
    have "of_int q \<le> pow2 (bitlen q)"
    proof -
      have "(of_int q :: rat) \<le> of_int (2 ^ nat (bitlen q))" using bq by (simp only: of_int_le_iff)
      then show ?thesis using bq0 by (simp add: pow2_def)
    qed
    then have "pow2 (e - 1) * of_int q \<le> pow2 (e - 1) * pow2 (bitlen q)"
      using pow2_pos[of "e - 1"] by (simp add: mult_left_mono)
    with 1 have "pow2 (e - 1) * of_int q \<le> of_int p" by simp
    then show ?thesis using q by (simp add: a pos_le_divide_eq)
  qed
  have "float_exponent x = (if pow2 e \<le> a then e else e - 1)"
    by (simp add: float_exponent_def Let_def a_def[symmetric] pq e_def)
  then show ?thesis using lo by (auto simp: a_def)
qed

lemma round_half_even_near: "\<bar>of_int (round_half_even y) - y\<bar> \<le> 1 / 2"
proof -
  have "of_int \<lfloor>y\<rfloor> \<le> y" "y < of_int \<lfloor>y\<rfloor> + 1" by linarith+
  then show ?thesis by (auto simp: round_half_even_def Let_def)
qed

lemma round_half_even_le: "y \<le> of_int n \<Longrightarrow> round_half_even y \<le> n"
proof -
  assume a: "y \<le> of_int n"
  have f: "\<lfloor>y\<rfloor> \<le> n" using a by (simp add: floor_le_iff) 
  show ?thesis
  proof (cases "\<lfloor>y\<rfloor> = n")
    case True
    then have "y = of_int n" using a by (metis of_int_floor_le order_antisym)
    then show ?thesis by (simp add: round_half_even_def)
  next
    case False
    then have "\<lfloor>y\<rfloor> + 1 \<le> n" using f by simp
    then show ?thesis by (auto simp: round_half_even_def Let_def)
  qed
qed

lemma round_half_even_ge: "of_int n \<le> y \<Longrightarrow> n \<le> round_half_even y"
proof -
  assume "of_int n \<le> y"
  then have "n \<le> \<lfloor>y\<rfloor>" by (simp add: le_floor_iff)
  then show ?thesis by (auto simp: round_half_even_def Let_def)
qed

lemma round_half_even_int [simp]: "round_half_even (of_int n) = n"
  by (simp add: round_half_even_def)

lemma float64_zero [simp]: "float64 0 = 0"
  by (simp add: float64_def)

lemma float64_error: "\<bar>float64 x - x\<bar> \<le> \<bar>x\<bar> / 2 ^ 53"
proof (cases "x = 0")
  case True then show ?thesis by simp
next
  case False
  define u where "u = pow2 (float_exponent x - 52)"
  have u: "0 < u" by (simp add: u_def pow2_pos)
  have fx: "float64 x = of_int (round_half_even (x / u)) * u"
    using False by (simp add: float64_def u_def Let_def)
  have "float64 x - x = (of_int (round_half_even (x / u)) - x / u) * u"
    using u by (simp add: fx left_diff_distrib)
  then have "\<bar>float64 x - x\<bar> = \<bar>of_int (round_half_even (x / u)) - x / u\<bar> * u"
    using u by (simp only: abs_mult abs_of_pos)
  also have "\<dots> \<le> (1 / 2) * u"
    using round_half_even_near[of "x / u"] u by (simp add: mult_right_mono)
  also have "\<dots> = pow2 (float_exponent x) / 2 ^ 53"
  proof -
    have "pow2 (float_exponent x) = pow2 (float_exponent x - 52) * pow2 52"
      unfolding pow2_add[symmetric] by simp
    then show ?thesis by (simp add: u_def pow2_def)
  qed
  also have "\<dots> \<le> \<bar>x\<bar> / 2 ^ 53"
    using float_exponent_le[OF False] by (simp add: divide_right_mono)
  finally show ?thesis .
qed

lemma float64_nonneg: "0 \<le> x \<Longrightarrow> 0 \<le> float64 x"
proof (cases "x = 0")
  case True then show ?thesis by simp
next
  case False
  assume "0 \<le> x"
  define u where "u = pow2 (float_exponent x - 52)"
  have u: "0 < u" by (simp add: u_def pow2_pos)
  have "(of_int 0 :: rat) \<le> x / u" using \<open>0 \<le> x\<close> u by simp
  then have "0 \<le> round_half_even (x / u)" by (rule round_half_even_ge)
  then show ?thesis using False u by (simp add: float64_def u_def[symmetric] Let_def)
qed

lemma float64_le_int:
  assumes "0 \<le> x" "x \<le> of_int n" "n \<le> 2 ^ 52"
  shows "float64 x \<le> of_int n"
proof (cases "x = 0")
  case True then show ?thesis using assms by simp
next
  case False
  define e where "e = float_exponent x"
  define u where "u = pow2 (e - 52)"
  have u: "0 < u" by (simp add: u_def pow2_pos)
  have "pow2 e \<le> \<bar>x\<bar>" unfolding e_def by (rule float_exponent_le[OF False])
  also have "\<dots> \<le> of_int n" using assms by simp
  also have "\<dots> \<le> of_int (2 ^ 52)" using assms(3) by (simp only: of_int_le_iff)
  also have "\<dots> = pow2 52" by (simp add: pow2_def)
  finally have "e \<le> 52" by (rule pow2_le_D)
  then obtain k where k: "52 - e = int k" using nonneg_int_cases[of "52 - e"] by auto
  have "e - 52 = - int k" using k by simp
  then have uk: "u = 1 / 2 ^ k" by (simp add: u_def pow2_neg)
  have "x / u \<le> of_int n / u" using assms(2) u by (simp add: divide_right_mono)
  also have "of_int n / u = of_int (n * 2 ^ k)" by (simp add: uk)
  finally have "round_half_even (x / u) \<le> n * 2 ^ k" by (rule round_half_even_le)
  then have "(of_int (round_half_even (x / u)) :: rat) \<le> of_int (n * 2 ^ k)"
    by (simp only: of_int_le_iff)
  then have "of_int (round_half_even (x / u)) * u \<le> of_int (n * 2 ^ k) * u"
    using u by (simp add: mult_right_mono)
  also have "of_int (n * 2 ^ k) * u = of_int n" by (simp add: uk)
  finally show ?thesis
    using False by (simp add: float64_def e_def[symmetric] u_def[symmetric] Let_def)
qed

lemma percent_bounds:
  assumes "0 \<le> n" "n \<le> d" "0 < d"
  shows "0 \<le> float64 (float64 (of_int n / of_int d) * 100)"
    and "float64 (float64 (of_int n / of_int d) * 100) \<le> 100"
    and "\<bar>float64 (float64 (of_int n / of_int d) * 100) - 100 * of_int n / of_int d\<bar>
           \<le> 200 / 2 ^ 53"
proof -
  define q :: rat where "q = of_int n / of_int d"
  define x1 where "x1 = float64 q"
  define x2 where "x2 = float64 (x1 * 100)"
  have q0: "0 \<le> q" using assms by (simp add: q_def)
  have q1: "q \<le> of_int 1" using assms by (simp add: q_def)
  have x10: "0 \<le> x1" unfolding x1_def by (rule float64_nonneg[OF q0])
  have "x1 \<le> of_int 1" unfolding x1_def by (rule float64_le_int[OF q0 q1]) simp
  then have x11: "x1 \<le> 1" by simp
  have a0: "0 \<le> x1 * 100" using x10 by simp
  have a1: "x1 * 100 \<le> of_int 100" using x11 by simp
  show x20: "0 \<le> float64 (float64 (of_int n / of_int d) * 100)"
    using float64_nonneg[OF a0] by (simp add: x1_def q_def)
  have "x2 \<le> of_int 100" unfolding x2_def by (rule float64_le_int[OF a0 a1]) simp
  then show "float64 (float64 (of_int n / of_int d) * 100) \<le> 100"
    by (simp add: x2_def x1_def q_def)
  have e1: "\<bar>x1 - q\<bar> \<le> 1 / 2 ^ 53"
  proof -
    have "\<bar>x1 - q\<bar> \<le> \<bar>q\<bar> / 2 ^ 53" unfolding x1_def by (rule float64_error)
    also have "\<dots> \<le> 1 / 2 ^ 53" using q0 q1 by (simp add: divide_right_mono)
    finally show ?thesis .
  qed
  have e2: "\<bar>x2 - x1 * 100\<bar> \<le> 100 / 2 ^ 53"
  proof -
    have "\<bar>x2 - x1 * 100\<bar> \<le> \<bar>x1 * 100\<bar> / 2 ^ 53" unfolding x2_def by (rule float64_error)
    also have "\<dots> \<le> 100 / 2 ^ 53" using x10 x11 by (simp add: divide_right_mono)
    finally show ?thesis .
  qed
  have "x2 - 100 * q = (x2 - x1 * 100) + 100 * (x1 - q)" by (simp add: algebra_simps)
  then have "\<bar>x2 - 100 * q\<bar> \<le> \<bar>x2 - x1 * 100\<bar> + \<bar>100 * (x1 - q)\<bar>"
    by (simp only: abs_triangle_ineq)
  also have "\<bar>100 * (x1 - q)\<bar> = 100 * \<bar>x1 - q\<bar>" unfolding abs_mult by simp
  also have "\<bar>x2 - x1 * 100\<bar> + 100 * \<bar>x1 - q\<bar> \<le> 100 / 2 ^ 53 + 100 * (1 / 2 ^ 53)"
    by (intro add_mono mult_left_mono e1 e2) simp
  finally have "\<bar>x2 - 100 * q\<bar> \<le> 200 / 2 ^ 53" by simp
  then show "\<bar>float64 (float64 (of_int n / of_int d) * 100) - 100 * of_int n / of_int d\<bar>
           \<le> 200 / 2 ^ 53"
    by (simp add: x2_def x1_def q_def)
qed

lemma tenth_range:
  assumes "0 \<le> k" "k \<le> 1000"
  shows "0 \<le> float64 (of_int k / 10)" "float64 (of_int k / 10) \<le> 100"
proof -
  have a: "(0::rat) \<le> of_int k / 10" using assms by simp
  have b: "(of_int k / 10 :: rat) \<le> of_int 100" using assms by simp
  show "0 \<le> float64 (of_int k / 10)" by (rule float64_nonneg[OF a])
  have "float64 (of_int k / 10) \<le> of_int 100" by (rule float64_le_int[OF a b]) simp
  then show "float64 (of_int k / 10) \<le> 100" by simp
qed

lemma round_tenths_range:
  assumes "0 \<le> x" "x \<le> 100"
  shows "0 \<le> round_half_even (x * 10)" "round_half_even (x * 10) \<le> 1000"
proof -
  have "of_int 0 \<le> x * 10" using assms by simp
  then show "0 \<le> round_half_even (x * 10)" by (rule round_half_even_ge)
  have "x * 10 \<le> of_int 1000" using assms by simp
  then show "round_half_even (x * 10) \<le> 1000" by (rule round_half_even_le)
qed

lemma py_round1_range:
  assumes "0 \<le> x" "x \<le> 100"
  shows "0 \<le> py_round1 x" "py_round1 x \<le> 100"
  unfolding py_round1_def
  using tenth_range[OF round_tenths_range[OF assms]] by simp_all

lemma np_round1_range:
  assumes "0 \<le> x" "x \<le> 100"
  shows "0 \<le> np_round1 x" "np_round1 x \<le> 100"
proof -
  have a: "0 \<le> x * 10" using assms by simp
  have b: "x * 10 \<le> of_int 1000" using assms by simp
  have y0: "of_int 0 \<le> float64 (x * 10)" using float64_nonneg[OF a] by simp
  have y1: "float64 (x * 10) \<le> of_int 1000" by (rule float64_le_int[OF a b]) simp
  have k: "0 \<le> round_half_even (float64 (x * 10))" "round_half_even (float64 (x * 10)) \<le> 1000"
    using round_half_even_ge[OF y0] round_half_even_le[OF y1] by simp_all
  show "0 \<le> np_round1 x" "np_round1 x \<le> 100"
    unfolding np_round1_def using tenth_range[OF k] by simp_all
qed

lemma nearest_tenth_exact:
  fixes k n d :: int
  assumes d: "0 < d" "d \<le> 2 ^ 40"
      and near: "\<bar>of_int k / 10 - 100 * of_int n / of_int d\<bar> \<le> (1 / 20 + 200 / 2 ^ 53 :: rat)"
  shows "\<bar>of_int k / 10 - 100 * of_int n / of_int d\<bar> \<le> (1 / 20 :: rat)"
proof (rule ccontr)
  assume contra: "\<not> ?thesis"
  define M :: int where "M = \<bar>k * d - 1000 * n\<bar>"
  have dr: "(0::rat) < of_int d" using d by simp
  have eq: "\<bar>of_int k / 10 - 100 * of_int n / of_int d\<bar> = (of_int M :: rat) / (10 * of_int d)"
  proof -
    have "(of_int k / 10 - 100 * of_int n / of_int d :: rat)
            = of_int (k * d - 1000 * n) / (10 * of_int d)"
      using dr by (simp add: field_simps)
    then show ?thesis using dr by (simp add: M_def abs_divide)
  qed
  from contra have "(1 / 20 :: rat) < of_int M / (10 * of_int d)" by (simp add: eq)
  then have "(of_int d :: rat) < 2 * of_int M" using dr by (simp add: field_simps)
  then have "(of_int d :: rat) < of_int (2 * M)" by simp
  then have "d < 2 * M" by (simp only: of_int_less_iff)
  then have "d + 1 \<le> 2 * M" by simp
  then have "(of_int (d + 1) :: rat) \<le> of_int (2 * M)" by (simp only: of_int_le_iff)
  then have "(of_int d + 1 :: rat) \<le> 2 * of_int M" by simp
  then have "(of_int d + 1 :: rat) / (20 * of_int d) \<le> (2 * of_int M) / (20 * of_int d)"
    using dr by (intro divide_right_mono) simp_all
  also have "\<dots> = of_int M / (10 * of_int d)" by simp
  finally have "(of_int d + 1 :: rat) / (20 * of_int d) \<le> of_int M / (10 * of_int d)" .
  also have "of_int M / (10 * of_int d) \<le> (1 / 20 + 200 / 2 ^ 53 :: rat)"
    using near by (simp add: eq)
  finally have "(of_int d + 1 :: rat) / (20 * of_int d) \<le> 1 / 20 + 200 / 2 ^ 53" .
  then have "(2 ^ 53 :: rat) \<le> 4000 * of_int d" using dr by (simp add: field_simps)
  moreover have "(of_int d :: rat) \<le> of_int (2 ^ 40)" using d(2) by (simp only: of_int_le_iff)
  ultimately show False by simp
qed

lemma calculate_percentage_python:
  assumes "0 \<le> n" "n \<le> d" "0 < d"
  shows "\<exists>k. calculate_percentage False n d = PFloat (float64 (of_int k / 10)) \<and>
             0 \<le> k \<and> k \<le> 1000 \<and>
             \<bar>of_int k / 10 - 100 * of_int n / of_int d\<bar> \<le> (1 / 20 + 1 / 2 ^ 45 :: rat) \<and>
             (d \<le> 2 ^ 40 \<longrightarrow> \<bar>of_int k / 10 - 100 * of_int n / of_int d\<bar> \<le> (1 / 20 :: rat))"
proof -
  define x where "x = float64 (float64 (of_int n / of_int d) * 100)"
  define k where "k = round_half_even (x * 10)"
  have x: "0 \<le> x" "x \<le> 100" "\<bar>x - 100 * of_int n / of_int d\<bar> \<le> 200 / 2 ^ 53"
    unfolding x_def using percent_bounds[OF assms] by simp_all
  have cp: "calculate_percentage False n d = PFloat (float64 (of_int k / 10))"
    using assms(3) by (simp add: calculate_percentage_def Let_def py_round1_def x_def k_def)
  have kr: "0 \<le> k" "k \<le> 1000" unfolding k_def using round_tenths_range[OF x(1,2)] by simp_all
  have "\<bar>of_int k - x * 10\<bar> \<le> 1 / 2" unfolding k_def by (rule round_half_even_near)
  then have "\<bar>of_int k / 10 - x\<bar> \<le> 1 / 20" by (simp add: field_simps abs_le_iff) 
  then have near: "\<bar>of_int k / 10 - 100 * of_int n / of_int d\<bar> \<le> (1 / 20 + 200 / 2 ^ 53 :: rat)"
    using x(3) by linarith
  have "(200 / 2 ^ 53 :: rat) \<le> 1 / 2 ^ 45" by simp
  with near have n2: "\<bar>of_int k / 10 - 100 * of_int n / of_int d\<bar> \<le> (1 / 20 + 1 / 2 ^ 45 :: rat)"
    by linarith
  have "d \<le> 2 ^ 40 \<longrightarrow> \<bar>of_int k / 10 - 100 * of_int n / of_int d\<bar> \<le> (1 / 20 :: rat)"
    using nearest_tenth_exact[OF assms(3) _ near] by blast
  with cp kr n2 show ?thesis by blast
qed

lemma calculate_percentage_range:
  assumes "0 \<le> n" "n \<le> d"
  shows "\<exists>r. (calculate_percentage np n d = PFloat r \<or> calculate_percentage np n d = NpFloat64 r)
             \<and> 0 \<le> r \<and> r \<le> 100"
proof (cases "d = 0")
  case True
  then show ?thesis by (simp add: calculate_percentage_def)
next
  case False
  then have d: "0 < d" using assms by simp
  define x where "x = float64 (float64 (of_int n / of_int d) * 100)"
  have x: "0 \<le> x" "x \<le> 100" unfolding x_def using percent_bounds[OF assms d] by simp_all
  show ?thesis
    using False py_round1_range[OF x] np_round1_range[OF x]
    by (cases np) (simp_all add: calculate_percentage_def Let_def x_def)
qed

lemma col_configured_str:
  "c \<noteq> [] \<Longrightarrow> col_configured df (PStr c) = Inr (c \<in> set (column_names df))"
  by (simp add: col_configured_def in_columns_def)

lemma map_of_column_names:
  "map_of (df_columns df) c = Some col \<Longrightarrow> c \<in> set (column_names df)"
  by (auto simp: column_names_def dest: map_of_SomeD intro: rev_image_eqI)

lemma get_column_str:
  "map_of (df_columns df) c = Some col \<Longrightarrow> get_column df (PStr c) = Inr col"
  by (simp add: get_column_def)

lemma dropna_idem: "dropna (dropna col) = dropna col"
  by (simp add: dropna_def)

lemma nunique_card: "nunique col = card (cell_key ` set (dropna col))"
  by (simp add: nunique_def length_remdups_card_conv)

lemma run_mock_dama_checks_dims:
  assumes "\<not> df_empty df" "run_mock_dama_checks L (Some df) config = Inr (res, iss)"
  shows "\<exists>r1 r2 r3 r4 r5.
           res = [(''Completeness'', r1), (''Uniqueness'', r2), (''Timeliness'', r3),
                  (''Validity'', r4), (''Consistency'', r5)] \<and>
           dim_value (completeness_check df config) = Some r1 \<and>
           dim_value (uniqueness_check df config) = Some r2 \<and>
           dim_value (timeliness_check L df config) = Some r3 \<and>
           dim_value (validity_check L df config) = Some r4 \<and>
           dim_value (consistency_check L df config) = Some r5"
  using assms unfolding run_mock_dama_checks_def dim_value_def
  by (auto split: sum.splits prod.splits)

lemma collect_map_Inr: "collect (map (\<lambda>x. Inr (f x)) xs) = Inr (map f xs)"
  by (induction xs) auto

lemma collect_length: "collect xs = Inr ys \<Longrightarrow> length ys = length xs"
  by (induction xs arbitrary: ys) (auto split: sum.splits)

lemma somes_length_le: "length (somes xs) \<le> length xs"
  by (induction xs rule: somes.induct) auto

lemma coerce_numeric_number:
  "is_numeric_cell c \<Longrightarrow> coerce_numeric L c = Inr (cell_number c)"
  by (cases c) (auto simp: coerce_numeric_def is_numeric_cell_def)

lemma to_numeric_numeric:
  "list_all is_numeric_cell col \<Longrightarrow> to_numeric L col = Inr (map cell_number col)"
  unfolding to_numeric_def
  by (induction col) (auto simp: coerce_numeric_number)

lemma count_nonneg_numeric:
  "list_all is_numeric_cell col \<Longrightarrow>
   length (filter (\<lambda>x. 0 \<le> x) (somes (map cell_number col))) + length (filter is_negative_cell col)
     = length col"
proof (induction col)
  case Nil then show ?case by simp
next
  case (Cons a col)
  then show ?case
    by (cases a) (auto simp: is_numeric_cell_def is_negative_cell_def)
qed

subsection \<open>Uniqueness\<close>

lemma percentage_of_counts:
  assumes "n \<le> d" "0 < d"
  shows "\<exists>k. calculate_percentage False (int n) (int d) = PFloat (float64 (of_int k / 10)) \<and>
             \<bar>of_int k / 10 - 100 * of_nat n / of_nat d\<bar> \<le> (1 / 20 + 1 / 2 ^ 45 :: rat) \<and>
             (d \<le> 2 ^ 40 \<longrightarrow> \<bar>of_int k / 10 - 100 * of_nat n / of_nat d\<bar> \<le> (1 / 20 :: rat))"
proof -
  have "0 \<le> int n" "int n \<le> int d" "0 < int d" using assms by simp_all
  from calculate_percentage_python[OF this] obtain k where
    k: "calculate_percentage False (int n) (int d) = PFloat (float64 (of_int k / 10))"
       "\<bar>of_int k / 10 - 100 * of_int (int n) / of_int (int d)\<bar> \<le> (1 / 20 + 1 / 2 ^ 45 :: rat)"
       "int d \<le> 2 ^ 40 \<longrightarrow>
          \<bar>of_int k / 10 - 100 * of_int (int n) / of_int (int d)\<bar> \<le> (1 / 20 :: rat)"
    by blast
  have "d \<le> 2 ^ 40 \<Longrightarrow> int d \<le> 2 ^ 40"
    by (metis of_nat_le_iff of_nat_numeral of_nat_power)
  with k show ?thesis by auto
qed

text \<open>
  Claim C7. With a configured uniqueness column \<open>c\<close> (a non-empty name; the empty name is
  how the guard reads "none configured"), on a non-empty dataset: when the dataset has the
  column, the score is 100 if the column has no non-missing value; otherwise the score is
  a one-decimal number \<open>k / 10\<close> (the float nearest to it) that lies within \<open>1/20\<close> of
  100 times the number of distinct non-missing values divided by the number of
  non-missing values. The distance \<open>1/20\<close> is what rounding to one decimal means: the
  score is a tenth nearest to the exact quotient, and where the quotient lies midway
  between two tenths the floating-point computation can give either. The bound is exact
  up to \<open>2\<^sup>4\<^sup>0\<close> values, and within \<open>2\<^sup>-\<^sup>4\<^sup>5\<close> beyond. When the dataset lacks the column, the
  result is the sentinel \<^verbatim>\<open>N/A (Col missing)\<close>. Distinct is Python's equality of values
  (\<open>cell_key\<close>).
\<close>

theorem uniqueness_score:
  assumes cfg: "dict_get config ''uniqueness_col'' PNone = PStr c" and ne: "c \<noteq> []"
      and rows: "\<not> df_empty df"
  shows "(\<forall>col. map_of (df_columns df) c = Some col \<longrightarrow>
            (dropna col = [] \<longrightarrow>
               dim_value (uniqueness_check df config) = Some (PFloat 100)) \<and>
            (dropna col \<noteq> [] \<longrightarrow>
               (\<exists>k. dim_value (uniqueness_check df config) = Some (PFloat (float64 (of_int k / 10))) \<and>
                    \<bar>of_int k / 10 - 100 * of_nat (card (cell_key ` set (dropna col)))
                                      / of_nat (length (dropna col))\<bar>
                      \<le> (1 / 20 + 1 / 2 ^ 45 :: rat) \<and>
                    (length (dropna col) \<le> 2 ^ 40 \<longrightarrow>
                       \<bar>of_int k / 10 - 100 * of_nat (card (cell_key ` set (dropna col)))
                                         / of_nat (length (dropna col))\<bar>
                         \<le> (1 / 20 :: rat))))) \<and>
         (c \<notin> set (column_names df) \<longrightarrow>
            dim_value (uniqueness_check df config) = Some (PStr ''N/A (Col missing)''))"
proof (intro conjI allI impI)
  fix col assume col: "map_of (df_columns df) c = Some col" and e: "dropna col = []"
  have guard: "col_configured df (PStr c) = Inr True"
    using ne map_of_column_names[OF col] by (simp add: col_configured_str)
  have body: "uniqueness_body df (PStr c) = Inr (PFloat 100, None)"
    using e by (simp add: uniqueness_body_def get_column_str[OF col] Let_def dropna_idem
        nunique_def issue_def)
  show "dim_value (uniqueness_check df config) = Some (PFloat 100)"
    by (simp add: uniqueness_check_def cfg guard body catch_def dim_value_def)
next
  fix col assume col: "map_of (df_columns df) c = Some col" and e: "dropna col \<noteq> []"
  have guard: "col_configured df (PStr c) = Inr True"
    using ne map_of_column_names[OF col] by (simp add: col_configured_str)
  let ?n = "card (cell_key ` set (dropna col))"
  let ?d = "length (dropna col)"
  have nd: "?n \<le> ?d"
    by (metis card_image_le card_length le_trans List.finite_set)
  have d: "0 < ?d" using e by simp
  from percentage_of_counts[OF nd d] obtain k where
    k: "calculate_percentage False (int ?n) (int ?d) = PFloat (float64 (of_int k / 10))"
       "\<bar>of_int k / 10 - 100 * of_nat ?n / of_nat ?d\<bar> \<le> (1 / 20 + 1 / 2 ^ 45 :: rat)"
       "?d \<le> 2 ^ 40 \<longrightarrow> \<bar>of_int k / 10 - 100 * of_nat ?n / of_nat ?d\<bar> \<le> (1 / 20 :: rat)"
    by blast
  have body: "uniqueness_body df (PStr c) =
      Inr (PFloat (float64 (of_int k / 10)), issue (int ?d - int ?n))"
    using e k(1)
    by (simp add: uniqueness_body_def get_column_str[OF col] Let_def nunique_card dropna_idem)
  have "dim_value (uniqueness_check df config) = Some (PFloat (float64 (of_int k / 10)))"
    by (simp add: uniqueness_check_def cfg guard body catch_def dim_value_def)
  with k(2,3)
  show "\<exists>k. dim_value (uniqueness_check df config) = Some (PFloat (float64 (of_int k / 10))) \<and>
            \<bar>of_int k / 10 - 100 * of_nat ?n / of_nat ?d\<bar> \<le> (1 / 20 + 1 / 2 ^ 45 :: rat) \<and>
            (?d \<le> 2 ^ 40 \<longrightarrow> \<bar>of_int k / 10 - 100 * of_nat ?n / of_nat ?d\<bar> \<le> (1 / 20 :: rat))"
    by blast
next
  assume "c \<notin> set (column_names df)"
  then have "col_configured df (PStr c) = Inr False"
    using ne by (simp add: col_configured_str)
  then show "dim_value (uniqueness_check df config) = Some (PStr ''N/A (Col missing)'')"
    by (simp add: uniqueness_check_def cfg dim_value_def)
qed

theorem uniqueness_score_witness:
  "(\<exists>k. dim_value (uniqueness_check
            \<lparr>df_index_name = None, df_index = [CInt 0, CInt 1, CInt 2, CInt 3],
             df_columns = [(''id'', [CInt 1, CFloat 1, CNull, CInt 2])]\<rparr>
            [(KStr ''uniqueness_col'', PStr ''id'')]) = Some (PFloat (float64 (of_int k / 10))) \<and>
        \<bar>of_int k / 10 - 200 / 3\<bar> \<le> (1 / 20 :: rat)) \<and>
   dim_value (uniqueness_check
       \<lparr>df_index_name = None, df_index = [CInt 0, CInt 1, CInt 2, CInt 3],
        df_columns = [(''id'', [CInt 1, CFloat 1, CNull, CInt 2])]\<rparr>
       [(KStr ''uniqueness_col'', PStr ''id'')]) = Some (PFloat (float64 (667 / 10))) \<and>
   dim_value (uniqueness_check
       \<lparr>df_index_name = None, df_index = [CInt 0],
        df_columns = [(''id'', [CNull])]\<rparr>
       [(KStr ''uniqueness_col'', PStr ''id'')]) = Some (PFloat 100) \<and>
   dim_value (uniqueness_check
       \<lparr>df_index_name = None, df_index = [CInt 0],
        df_columns = [(''name'', [CStr ''a''])]\<rparr>
       [(KStr ''uniqueness_col'', PStr ''id'')]) = Some (PStr ''N/A (Col missing)'')"
proof -
  let ?cfg = "[(KStr ''uniqueness_col'', PStr ''id'')]"
  let ?df1 = "\<lparr>df_index_name = None, df_index = [CInt 0, CInt 1, CInt 2, CInt 3],
               df_columns = [(''id'', [CInt 1, CFloat 1, CNull, CInt 2])]\<rparr>"
  let ?df2 = "\<lparr>df_index_name = None, df_index = [CInt 0], df_columns = [(''id'', [CNull])]\<rparr>"
  let ?df3 = "\<lparr>df_index_name = None, df_index = [CInt 0],
               df_columns = [(''name'', [CStr ''a''])]\<rparr>"
  have a: "\<exists>k. dim_value (uniqueness_check ?df1 ?cfg) = Some (PFloat (float64 (of_int k / 10))) \<and>
               \<bar>of_int k / 10 - 200 / 3\<bar> \<le> (1 / 20 :: rat)"
  proof -
    have dn: "dropna [CInt 1, CFloat 1, CNull, CInt 2] = [CInt 1, CFloat 1, CInt 2]"
      by (simp add: dropna_def is_null_def)
    show ?thesis
      using uniqueness_score [of ?cfg "''id''" ?df1]
      by (auto simp: dict_get_def dn df_empty_def df_len_def)
  qed
  have b: "dim_value (uniqueness_check ?df1 ?cfg) = Some (PFloat (float64 (667 / 10)))"
    by code_simp
  have c: "dim_value (uniqueness_check ?df2 ?cfg) = Some (PFloat 100)"
    using uniqueness_score [of ?cfg "''id''" ?df2]
    by (simp add: dict_get_def dropna_def is_null_def df_empty_def df_len_def)
  have d: "dim_value (uniqueness_check ?df3 ?cfg) = Some (PStr ''N/A (Col missing)'')"
    using uniqueness_score [of ?cfg "''id''" ?df3]
    by (simp add: dict_get_def column_names_def df_empty_def df_len_def)
  show ?thesis using a b c d by blast
qed

subsection \<open>Validity\<close>

text \<open>
  Where the exact percentage lies midway between two tenths, the double arithmetic
  decides: 23 of 80 is 28.75 and scores 28.7, 49 of 80 is 61.25 and scores 61.3.
\<close>

lemma calculate_percentage_ties:
  "calculate_percentage False 23 80 = PFloat (float64 (287 / 10))"
  "calculate_percentage False 49 80 = PFloat (float64 (613 / 10))"
  "calculate_percentage False 95 100 = PFloat 95"
  by code_simp+

lemma to_numeric_length: "to_numeric L col = Inr nums \<Longrightarrow> length nums = length col"
  by (auto simp: to_numeric_def dest: collect_length)

lemma column_length:
  "df_wf df \<Longrightarrow> map_of (df_columns df) c = Some col \<Longrightarrow> length col = df_len df"
proof -
  assume wf: "df_wf df" and col: "map_of (df_columns df) c = Some col"
  from col have "(c, col) \<in> set (df_columns df)" by (rule map_of_SomeD)
  with wf show ?thesis by (auto simp: df_wf_def list_all_iff)
qed

lemma validity_value:
  assumes cfg: "dict_get config ''validity_col'' PNone = PStr c" and ne: "c \<noteq> []"
      and cond: "dict_get config ''validity_condition'' PNone = PStr ''>= 0''"
      and col: "map_of (df_columns df) c = Some col"
      and nums: "to_numeric L col = Inr nums"
  shows "dim_value (validity_check L df config) =
           Some (calculate_percentage False
                   (int (length (filter (\<lambda>x. 0 \<le> x) (somes nums)))) (int (df_len df)))"
proof -
  have guard: "col_configured df (PStr c) = Inr True"
    using ne map_of_column_names[OF col] by (simp add: col_configured_str)
  have body: "validity_body L df config (PStr c) =
      Inr (calculate_percentage False
             (int (length (filter (\<lambda>x. 0 \<le> x) (somes nums)))) (int (df_len df)),
           issue (int (length (somes nums)) - int (length (filter (\<lambda>x. 0 \<le> x) (somes nums)))))"
    by (simp add: validity_body_def get_column_str[OF col] nums cond Let_def num_rows_def)
  show ?thesis
    by (simp add: validity_check_def cfg guard body catch_def dim_value_def)
qed

text \<open>
  Claim C5. With a configured validity column that the dataset has and the condition
  \<^verbatim>\<open>>= 0\<close>, on a non-empty dataset: when the coercion of the column gives \<open>nums\<close>
  (a failed coercion is a missing entry), the validity score is a one-decimal number
  \<open>k / 10\<close> (the float nearest to it) that lies within \<open>1/20\<close> of 100 times the number of
  entries of \<open>nums\<close> that are present and at least 0, divided by the number of rows of the
  dataset. The distance \<open>1/20\<close> is what rounding to one decimal means: the score is a
  tenth nearest to the exact quotient, and where the quotient lies midway between two
  tenths the floating-point computation can give either (28.7 for 23 of 80 rows). The
  bound is exact up to \<open>2\<^sup>4\<^sup>0\<close> rows, and within \<open>2\<^sup>-\<^sup>4\<^sup>5\<close> beyond. In particular a column of
  100 numeric cells of which 5 are negative scores 95.
\<close>

theorem validity_score:
  assumes cfg: "dict_get config ''validity_col'' PNone = PStr c" and ne: "c \<noteq> []"
      and cond: "dict_get config ''validity_condition'' PNone = PStr ''>= 0''"
      and col: "map_of (df_columns df) c = Some col"
      and wf: "df_wf df" and rows: "\<not> df_empty df"
  shows "(\<forall>nums. to_numeric L col = Inr nums \<longrightarrow>
            (\<exists>k. dim_value (validity_check L df config) = Some (PFloat (float64 (of_int k / 10))) \<and>
                 \<bar>of_int k / 10 - 100 * of_nat (length (filter (\<lambda>x. 0 \<le> x) (somes nums)))
                                   / of_nat (df_len df)\<bar>
                   \<le> (1 / 20 + 1 / 2 ^ 45 :: rat) \<and>
                 (df_len df \<le> 2 ^ 40 \<longrightarrow>
                    \<bar>of_int k / 10 - 100 * of_nat (length (filter (\<lambda>x. 0 \<le> x) (somes nums)))
                                      / of_nat (df_len df)\<bar>
                      \<le> (1 / 20 :: rat)))) \<and>
         (list_all is_numeric_cell col \<and> df_len df = 100 \<and>
          length (filter is_negative_cell col) = 5 \<longrightarrow>
            dim_value (validity_check L df config) = Some (PFloat 95))"
proof (intro conjI allI impI)
  fix nums assume nums: "to_numeric L col = Inr nums"
  let ?n = "length (filter (\<lambda>x. 0 \<le> x) (somes nums))"
  have "?n \<le> length (somes nums)" by simp
  also have "\<dots> \<le> length nums" by (rule somes_length_le)
  also have "\<dots> = df_len df"
    using to_numeric_length[OF nums] column_length[OF wf col] by simp
  finally have nd: "?n \<le> df_len df" .
  have d: "0 < df_len df" using rows by (simp add: df_empty_def)
  from percentage_of_counts[OF nd d] validity_value[OF cfg ne cond col nums]
  show "\<exists>k. dim_value (validity_check L df config) = Some (PFloat (float64 (of_int k / 10))) \<and>
            \<bar>of_int k / 10 - 100 * of_nat ?n / of_nat (df_len df)\<bar> \<le> (1 / 20 + 1 / 2 ^ 45 :: rat) \<and>
            (df_len df \<le> 2 ^ 40 \<longrightarrow>
               \<bar>of_int k / 10 - 100 * of_nat ?n / of_nat (df_len df)\<bar> \<le> (1 / 20 :: rat))"
    by auto
next
  assume a: "list_all is_numeric_cell col \<and> df_len df = 100 \<and>
          length (filter is_negative_cell col) = 5"
  then have nums: "to_numeric L col = Inr (map cell_number col)"
    by (simp add: to_numeric_numeric)
  have "length col = 100" using column_length[OF wf col] a by simp
  then have "length (filter (\<lambda>x. 0 \<le> x) (somes (map cell_number col))) = 95"
    using count_nonneg_numeric[of col] a by simp
  then show "dim_value (validity_check L df config) = Some (PFloat 95)"
    using validity_value[OF cfg ne cond col nums] a calculate_percentage_ties(3) by simp
qed

theorem validity_score_witness:
  "dim_value (validity_check demo_lib
       \<lparr>df_index_name = None, df_index = replicate 100 CNull,
        df_columns = [(''amount'', replicate 95 (CFloat 10) @ replicate 5 (CInt (- 3)))]\<rparr>
       [(KStr ''validity_col'', PStr ''amount''), (KStr ''validity_condition'', PStr ''>= 0'')])
     = Some (PFloat 95)"
proof -
  have "list_all is_numeric_cell (replicate 95 (CFloat 10) @ replicate 5 (CInt (- 3)))"
    by (simp add: list_all_iff is_numeric_cell_def)
  moreover have "length (filter is_negative_cell (replicate 95 (CFloat 10) @ replicate 5 (CInt (- 3)))) = 5"
    by (simp add: is_negative_cell_def)
  ultimately show ?thesis
    using validity_score [of "[(KStr ''validity_col'', PStr ''amount''), (KStr ''validity_condition'', PStr ''>= 0'')]"
        "''amount''"
        "\<lparr>df_index_name = None, df_index = replicate 100 CNull,
        df_columns = [(''amount'', replicate 95 (CFloat 10) @ replicate 5 (CInt (- 3)))]\<rparr>"
        "replicate 95 (CFloat 10) @ replicate 5 (CInt (- 3))" demo_lib]
    by (simp add: dict_get_def df_empty_def df_len_def df_wf_def column_names_def)
qed

subsection \<open>Timeliness\<close>






lemma to_datetime_length: "to_datetime L col = Inr dates \<Longrightarrow> length dates = length col"
  by (auto simp: to_datetime_def split: sum.splits if_splits dest!: collect_length)





subsection \<open>Every result is a percentage or a sentinel\<close>

lemma dim_ok_error: "dim_ok (error_result e)"
  by (simp add: dim_ok_def error_result_def)

lemma dim_ok_percentage: "0 \<le> n \<Longrightarrow> n \<le> d \<Longrightarrow> dim_ok (calculate_percentage np n d)"
  using calculate_percentage_range[of n d np] by (auto simp: dim_ok_def)

lemma catch_ok:
  assumes "\<And>r i. b = Inr (r, i) \<Longrightarrow> dim_ok r"
  shows "dim_ok (fst (catch b))"
  using assms by (cases b) (auto simp: catch_def dim_ok_error)

lemma get_column_wf_length:
  assumes "df_wf df" "get_column df x = Inr col"
  shows "length col = df_len df"
proof -
  from assms(2) obtain s where "map_of (df_columns df) s = Some col"
    by (auto simp: get_column_def split: pyval.splits option.splits)
  then have "(s, col) \<in> set (df_columns df)" by (rule map_of_SomeD)
  with assms(1) show ?thesis by (auto simp: df_wf_def list_all_iff)
qed

lemma collect_columns:
  assumes "df_wf df" "collect (map (get_column df) xs) = Inr cols"
  shows "length cols = length xs \<and> (\<forall>col \<in> set cols. length col = df_len df)"
  using assms(2)
proof (induction xs arbitrary: cols)
  case Nil then show ?case by simp
next
  case (Cons x xs)
  then show ?case
    by (auto split: sum.splits dest: get_column_wf_length[OF assms(1)])
qed

lemma count_nulls_bounds: "0 \<le> count_nulls col \<and> count_nulls col \<le> int (length col)"
  by (simp add: count_nulls_def)

lemma sum_count_nulls:
  assumes "\<forall>col \<in> set cols. length col = n"
  shows "0 \<le> sum_list (map count_nulls cols) \<and>
         sum_list (map count_nulls cols) \<le> int (length cols) * int n"
  using assms
proof (induction cols)
  case Nil then show ?case by simp
next
  case (Cons c cols)
  have "0 \<le> count_nulls c \<and> count_nulls c \<le> int n"
    using count_nulls_bounds[of c] Cons.prems by simp
  moreover have "0 \<le> sum_list (map count_nulls cols) \<and>
         sum_list (map count_nulls cols) \<le> int (length cols) * int n"
    using Cons by simp
  ultimately show ?case by (simp add: algebra_simps)
qed

lemma completeness_body_ok:
  assumes "df_wf df" "completeness_body df present = Inr (r, i)"
  shows "dim_ok r"
proof -
  from assms(2) obtain cols where c: "collect (map (get_column df) present) = Inr cols"
    and r: "r = calculate_percentage True
                (int (length present) * num_rows df - sum_list (map count_nulls cols))
                (int (length present) * num_rows df)"
    by (auto simp: completeness_body_def Let_def split: sum.splits)
  from collect_columns[OF assms(1) c] sum_count_nulls[of cols "df_len df"]
  have "0 \<le> sum_list (map count_nulls cols)"
       "sum_list (map count_nulls cols) \<le> int (length present) * num_rows df"
    by (auto simp: num_rows_def)
  then show ?thesis unfolding r by (intro dim_ok_percentage) auto
qed

lemma completeness_check_ok:
  assumes "df_wf df" "completeness_check df config = Inr (r, i)"
  shows "dim_ok r"
proof -
  from assms(2) obtain present where
    r: "(if present \<noteq> [] then catch (completeness_body df present)
                  else (PStr ''N/A (Cols missing)'', None)) = (r, i)"
    by (auto simp: completeness_check_def split: sum.splits)
  show ?thesis
  proof (cases "present = []")
    case True with r show ?thesis by (auto simp: dim_ok_def)
  next
    case False
    with r have "r = fst (catch (completeness_body df present))" by (metis fst_conv)
    then show ?thesis using catch_ok completeness_body_ok[OF assms(1)] by metis
  qed
qed

lemma nunique_le: "nunique col \<le> length (dropna col)"
  unfolding nunique_def by (metis length_map length_remdups_leq)

lemma uniqueness_body_ok:
  assumes "uniqueness_body df x = Inr (r, i)"
  shows "dim_ok r"
proof -
  from assms obtain col where
    r: "r = (if 0 < int (length (dropna col))
             then calculate_percentage False (int (nunique (dropna col))) (int (length (dropna col)))
             else PFloat 100)"
    by (auto simp: uniqueness_body_def Let_def split: sum.splits)
  have "nunique (dropna col) \<le> length (dropna col)"
    using nunique_le[of "dropna col"] by (simp add: dropna_idem)
  then show ?thesis unfolding r
    using dim_ok_percentage[of "int (nunique (dropna col))" "int (length (dropna col))" False]
    by (auto simp: dim_ok_def)
qed

lemma uniqueness_check_ok:
  assumes "uniqueness_check df config = Inr (r, i)"
  shows "dim_ok r"
proof -
  from assms obtain ok where
    r: "(if ok then catch (uniqueness_body df (dict_get config ''uniqueness_col'' PNone))
                  else (PStr ''N/A (Col missing)'', None)) = (r, i)"
    by (auto simp: uniqueness_check_def Let_def split: sum.splits)
  show ?thesis
  proof (cases ok)
    case False with r show ?thesis by (auto simp: dim_ok_def)
  next
    case True
    with r have "r = fst (catch (uniqueness_body df (dict_get config ''uniqueness_col'' PNone)))"
      by (metis fst_conv)
    then show ?thesis using catch_ok uniqueness_body_ok by metis
  qed
qed

lemma timeliness_body_ok:
  assumes "df_wf df" "timeliness_body L df x days = Inr (r, i)"
  shows "dim_ok r"
proof -
  from assms(2) obtain col dates where col: "get_column df x = Inr col"
    and dates: "to_datetime L col = Inr dates"
    by (auto simp: timeliness_body_def split: sum.splits)
  show ?thesis
  proof (cases "somes dates = []")
    case True
    with assms(2) col dates show ?thesis
      by (auto simp: timeliness_body_def dim_ok_def)
  next
    case False
    with assms(2) col dates obtain z ld timely where
      t: "dates_after (somes dates) z ld = Inr timely"
      and r: "r = calculate_percentage False (int (length timely)) (num_rows df)"
      by (auto simp: timeliness_body_def Let_def split: sum.splits)
    from t have "length timely \<le> length (somes dates)"
      by (auto simp: dates_after_def split: if_splits)
    also have "\<dots> \<le> length dates" by (rule somes_length_le)
    also have "\<dots> = df_len df"
      using to_datetime_length[OF dates] get_column_wf_length[OF assms(1) col] by simp
    finally show ?thesis unfolding r
      by (intro dim_ok_percentage) (auto simp: num_rows_def)
  qed
qed

lemma timeliness_check_ok:
  assumes "df_wf df" "timeliness_check L df config = Inr (r, i)"
  shows "dim_ok r"
proof -
  let ?days = "dict_get config ''timeliness_days'' (PInt 90)"
  from assms(2) obtain ok where
    r: "(if ok then catch (timeliness_body L df (dict_get config ''timeliness_col'' PNone) ?days)
                  else (PStr (''N/A (Col missing or invalid limit: '' @ fmt L ?days @ '')''), None)) = (r, i)"
    by (auto simp: timeliness_check_def Let_def split: sum.splits)
  show ?thesis
  proof (cases ok)
    case False with r show ?thesis by (auto simp: dim_ok_def)
  next
    case True
    with r have "r = fst (catch (timeliness_body L df (dict_get config ''timeliness_col'' PNone) ?days))"
      by (metis fst_conv)
    then show ?thesis using catch_ok timeliness_body_ok[OF assms(1)] by metis
  qed
qed

lemma validity_body_ok:
  assumes "df_wf df" "validity_body L df config x = Inr (r, i)"
  shows "dim_ok r"
proof -
  from assms(2) obtain col nums ge0 where col: "get_column df x = Inr col"
    and nums: "to_numeric L col = Inr nums"
    and r: "r = calculate_percentage False
                 (if ge0 then int (length (filter (\<lambda>x. 0 \<le> x) (somes nums)))
                  else int (length (somes nums))) (num_rows df)"
    by (auto simp: validity_body_def Let_def split: sum.splits)
  have "length (somes nums) \<le> df_len df"
    using somes_length_le[of nums] to_numeric_length[OF nums]
      get_column_wf_length[OF assms(1) col] by simp
  moreover have "length (filter (\<lambda>x. 0 \<le> x) (somes nums)) \<le> length (somes nums)" by simp
  ultimately have "length (filter (\<lambda>x. 0 \<le> x) (somes nums)) \<le> df_len df"
    "length (somes nums) \<le> df_len df" by linarith+
  then show ?thesis unfolding r
    by (intro dim_ok_percentage) (auto simp: num_rows_def)
qed

lemma validity_check_ok:
  assumes "df_wf df" "validity_check L df config = Inr (r, i)"
  shows "dim_ok r"
proof -
  from assms(2) obtain ok where
    r: "(if ok then catch (validity_body L df config (dict_get config ''validity_col'' PNone))
                  else (PStr ''N/A (Col missing)'', None)) = (r, i)"
    by (auto simp: validity_check_def Let_def split: sum.splits)
  show ?thesis
  proof (cases ok)
    case False with r show ?thesis by (auto simp: dim_ok_def)
  next
    case True
    with r have "r = fst (catch (validity_body L df config (dict_get config ''validity_col'' PNone)))"
      by (metis fst_conv)
    then show ?thesis using catch_ok validity_body_ok[OF assms(1)] by metis
  qed
qed

lemma consistency_body_ok:
  assumes "df_wf df" "consistency_body L df x lo_v hi_v = Inr (r, i)"
  shows "dim_ok r"
proof -
  from assms(2) obtain col scores lo hi where col: "get_column df x = Inr col"
    and scores: "to_numeric L col = Inr scores"
    and r: "r = calculate_percentage False
                 (int (length (filter id (map (\<lambda>(s, l, h). (l \<and> h) \<or> s = None)
                                               (zip scores (zip lo hi))))))
                 (num_rows df)"
    by (auto simp: consistency_body_def Let_def split: sum.splits if_splits)
  have "length (filter id (map (\<lambda>(s, l, h). (l \<and> h) \<or> s = None) (zip scores (zip lo hi))))
          \<le> length (map (\<lambda>(s, l, h). (l \<and> h) \<or> s = None) (zip scores (zip lo hi)))"
    by (rule length_filter_le)
  also have "\<dots> \<le> length scores" by simp
  also have "\<dots> = df_len df"
    using to_numeric_length[OF scores] get_column_wf_length[OF assms(1) col] by simp
  finally show ?thesis unfolding r
    by (intro dim_ok_percentage) (auto simp: num_rows_def)
qed

lemma consistency_check_ok:
  assumes "df_wf df" "consistency_check L df config = Inr (r, i)"
  shows "dim_ok r"
proof -
  let ?c = "dict_get config ''consistency_col'' PNone"
  from assms(2) have
    "(\<exists>a b. catch (consistency_body L df ?c a b) = (r, i)) \<or> r = PStr ''N/A (Col/Range missing)''"
    by (auto simp: consistency_check_def Let_def split: sum.splits bool.splits pyval.splits list.splits)
  then show ?thesis
  proof
    assume "\<exists>a b. catch (consistency_body L df ?c a b) = (r, i)"
    then obtain a b where "r = fst (catch (consistency_body L df ?c a b))" by (metis fst_conv)
    then show ?thesis using catch_ok consistency_body_ok[OF assms(1)] by metis
  next
    assume "r = PStr ''N/A (Col/Range missing)''"
    then show ?thesis by (simp add: dim_ok_def)
  qed
qed

lemma dim_value_SomeD: "dim_value x = Some r \<Longrightarrow> \<exists>i. x = Inr (r, i)"
  by (cases x) (auto simp: dim_value_def)

lemma plain_column_configured: "plain_column v \<Longrightarrow> \<exists>b. col_configured df v = Inr b"
  by (cases v) (auto simp: col_configured_def in_columns_def)

lemma plain_columns_present:
  "list_all plain_column xs \<Longrightarrow> \<exists>r. filter_present df xs = Inr r"
proof (induction xs)
  case Nil then show ?case by simp
next
  case (Cons x xs)
  then obtain r where "filter_present df xs = Inr r" by auto
  moreover have "\<exists>b. in_columns df x = Inr b"
    using Cons.prems by (cases x) (auto simp: in_columns_def)
  ultimately show ?case by auto
qed

lemma run_mock_dama_checks_returns:
  assumes "plain_config config"
  shows "\<exists>res iss. run_mock_dama_checks L (Some df) config = Inr (res, iss)"
proof -
  from assms obtain xs where xs: "dict_get config ''completeness_cols'' (PList []) = PList xs"
    and all: "list_all plain_column xs"
    by (auto simp: plain_config_def split: pyval.splits)
  from plain_columns_present[OF all] obtain p where p: "filter_present df xs = Inr p" by blast
  have c1: "\<exists>x. completeness_check df config = Inr x"
    by (simp add: completeness_check_def xs p)
  have c2: "\<exists>x. uniqueness_check df config = Inr x"
    using plain_column_configured[of "dict_get config ''uniqueness_col'' PNone" df] assms
    by (auto simp: uniqueness_check_def plain_config_def Let_def)
  have c3: "\<exists>x. timeliness_check L df config = Inr x"
    using plain_column_configured[of "dict_get config ''timeliness_col'' PNone" df] assms
    by (auto simp: timeliness_check_def plain_config_def Let_def)
  have c4: "\<exists>x. validity_check L df config = Inr x"
    using plain_column_configured[of "dict_get config ''validity_col'' PNone" df] assms
    by (auto simp: validity_check_def plain_config_def Let_def)
  have c5: "\<exists>x. consistency_check L df config = Inr x"
    using plain_column_configured[of "dict_get config ''consistency_col'' PNone" df] assms
    by (auto simp: consistency_check_def plain_config_def Let_def)
  from c1 c2 c3 c4 c5 show ?thesis
    unfolding run_mock_dama_checks_def
    by (auto split: prod.splits)
qed

lemma run_mock_dama_checks_ok:
  assumes wf: "df_wf df" and rows: "\<not> df_empty df"
      and run: "run_mock_dama_checks L (Some df) config = Inr (res, iss)"
  shows "map fst res = dimension_names" and "list_all dim_ok (map snd res)"
proof -
  from run_mock_dama_checks_dims[OF rows run] obtain r1 r2 r3 r4 r5 where
    res: "res = [(''Completeness'', r1), (''Uniqueness'', r2), (''Timeliness'', r3),
                  (''Validity'', r4), (''Consistency'', r5)]"
    and d: "dim_value (completeness_check df config) = Some r1"
           "dim_value (uniqueness_check df config) = Some r2"
           "dim_value (timeliness_check L df config) = Some r3"
           "dim_value (validity_check L df config) = Some r4"
           "dim_value (consistency_check L df config) = Some r5"
    by blast
  have "dim_ok r1" using d(1) completeness_check_ok[OF wf] by (blast dest: dim_value_SomeD)
  moreover have "dim_ok r2" using d(2) uniqueness_check_ok by (blast dest: dim_value_SomeD)
  moreover have "dim_ok r3" using d(3) timeliness_check_ok[OF wf] by (blast dest: dim_value_SomeD)
  moreover have "dim_ok r4" using d(4) validity_check_ok[OF wf] by (blast dest: dim_value_SomeD)
  moreover have "dim_ok r5" using d(5) consistency_check_ok[OF wf] by (blast dest: dim_value_SomeD)
  ultimately show "list_all dim_ok (map snd res)" by (simp add: res)
  show "map fst res = dimension_names" by (simp add: res dimension_names_def)
qed

text \<open>
  Claim C4. For a non-empty dataset and any rule configuration: whenever the scorer
  returns its results, they are the five dimensions in order, and each is a number from 0
  to 100 (a Python float, or numpy's for completeness) or a string that starts with
  \<^verbatim>\<open>N/A\<close> or with \<^verbatim>\<open>Error (\<close>; and the scorer does return them for every configuration
  whose column settings are names (or None).
\<close>

theorem dimension_results_in_range:
  assumes wf: "df_wf df" and rows: "\<not> df_empty df"
  shows "(\<forall>res iss. run_mock_dama_checks L (Some df) config = Inr (res, iss) \<longrightarrow>
            map fst res = dimension_names \<and> list_all dim_ok (map snd res)) \<and>
         (plain_config config \<longrightarrow>
            (\<exists>res iss. run_mock_dama_checks L (Some df) config = Inr (res, iss)))"
proof (intro conjI allI impI)
  fix res iss
  assume run: "run_mock_dama_checks L (Some df) config = Inr (res, iss)"
  show "map fst res = dimension_names" by (rule run_mock_dama_checks_ok(1)[OF wf rows run])
  show "list_all dim_ok (map snd res)" by (rule run_mock_dama_checks_ok(2)[OF wf rows run])
next
  assume "plain_config config"
  then show "\<exists>res iss. run_mock_dama_checks L (Some df) config = Inr (res, iss)"
    by (rule run_mock_dama_checks_returns)
qed

theorem dimension_results_in_range_witness:
  "\<exists>res iss. run_mock_dama_checks demo_lib (Some sample_df) default_dq_rules_config = Inr (res, iss) \<and>
      map fst res = dimension_names \<and> list_all dim_ok (map snd res)"
proof -
  have wf: "df_wf sample_df"
    by (simp add: df_wf_def sample_df_def column_names_def df_len_def)
  have rows: "\<not> df_empty sample_df"
    by (simp add: df_empty_def sample_df_def df_len_def)
  have plain: "plain_config default_dq_rules_config"
    by (simp add: plain_config_def default_dq_rules_config_def dict_get_def)
  from dimension_results_in_range [OF wf rows, of demo_lib default_dq_rules_config] plain
  show ?thesis by blast
qed

subsection \<open>The trust score\<close>

lemma dim_ok_kind:
  assumes "dim_ok v"
  shows "(\<exists>r. v = PFloat r) \<or> (\<exists>r. v = NpFloat64 r) \<or> (\<exists>s. v = PStr s)"
  using assms by (cases v) (auto simp: dim_ok_def)

lemma py_lt_mixed:
  assumes "dim_ok a" "dim_ok b" "is_int_or_float a \<noteq> is_int_or_float b"
  shows "py_lt a b = Inl (Exn TypeError ''less-than not supported between instances of str and float'')"
  using assms dim_ok_kind[of a] dim_ok_kind[of b]
  by (auto simp: py_lt_def)

lemma py_lt_same:
  assumes "dim_ok a" "dim_ok b" "is_int_or_float a = is_int_or_float b"
  shows "\<exists>c. py_lt a b = Inr c"
  using assms dim_ok_kind[of a] dim_ok_kind[of b]
  by (auto simp: py_lt_def)

lemma min_scan_mixed:
  assumes "dim_ok v0" "\<forall>v \<in> snd ` set rest. dim_ok v"
      and "\<exists>v \<in> snd ` set rest. is_int_or_float v \<noteq> is_int_or_float v0"
  shows "min_scan (k0, v0) rest =
           Inl (Exn TypeError ''less-than not supported between instances of str and float'')"
  using assms
proof (induction rest arbitrary: k0 v0)
  case Nil
  then show ?case by simp
next
  case (Cons kv rest)
  obtain k' v' where kv: "kv = (k', v')" by (cases kv)
  have ok': "dim_ok v'" using Cons.prems(2) kv by simp
  show ?case
  proof (cases "is_int_or_float v' = is_int_or_float v0")
    case False
    then show ?thesis using py_lt_mixed[OF ok' Cons.prems(1)] kv by simp
  next
    case True
    from py_lt_same[OF ok' Cons.prems(1) True] obtain c where c: "py_lt v' v0 = Inr c" by blast
    from Cons.prems(3) True kv
    have rest_mixed: "\<exists>v \<in> snd ` set rest. is_int_or_float v \<noteq> is_int_or_float v0" by auto
    have all_rest: "\<forall>v \<in> snd ` set rest. dim_ok v" using Cons.prems(2) by simp
    show ?thesis
    proof (cases c)
      case True
      have "min_scan (k', v') rest =
              Inl (Exn TypeError ''less-than not supported between instances of str and float'')"
        using Cons.IH[OF ok' all_rest] rest_mixed \<open>is_int_or_float v' = is_int_or_float v0\<close>
        by simp
      then show ?thesis using kv c True by simp
    next
      case False
      have "min_scan (k0, v0) rest =
              Inl (Exn TypeError ''less-than not supported between instances of str and float'')"
        using Cons.IH[OF Cons.prems(1) all_rest rest_mixed] .
      then show ?thesis using kv c False by simp
    qed
  qed
qed

lemma min_key_mixed:
  assumes "\<forall>v \<in> snd ` set res. dim_ok v"
      and "\<exists>a \<in> snd ` set res. is_int_or_float a" "\<exists>b \<in> snd ` set res. \<not> is_int_or_float b"
  shows "min_key res =
           Inl (Exn TypeError ''less-than not supported between instances of str and float'')"
proof (cases res)
  case Nil with assms show ?thesis by simp
next
  case (Cons kv rest)
  obtain k v where kv: "kv = (k, v)" by (cases kv)
  have "\<exists>w \<in> snd ` set rest. is_int_or_float w \<noteq> is_int_or_float v"
    using assms(2,3) Cons kv by auto
  then show ?thesis
    using min_scan_mixed[of v rest k] assms(1) Cons kv by (simp add: min_key_def)
qed

lemma in_columns_exn:
  "in_columns df x = Inl e \<Longrightarrow> exn_cls e = TypeError"
  by (auto simp: in_columns_def split: if_splits)

lemma run_ids_only:
  "run_mock_dama_checks demo_lib (Some ids_only_df) default_dq_rules_config =
     Inr ([(''Completeness'', NpFloat64 100), (''Uniqueness'', PFloat 100),
           (''Timeliness'', PStr ''N/A (Col missing or invalid limit: 90)''),
           (''Validity'', PStr ''N/A (Col missing)''),
           (''Consistency'', PStr ''N/A (Col/Range missing)'')], [])"
  by code_simp

lemma run_sample:
  "run_mock_dama_checks demo_lib (Some sample_df) default_dq_rules_config =
     Inr ([(''Completeness'', NpFloat64 (float64 (833 / 10))),
           (''Uniqueness'', PFloat (float64 (667 / 10))),
           (''Timeliness'', PFloat 25), (''Validity'', PFloat 75), (''Consistency'', PFloat 75)],
          [(''Completeness'', 2), (''Uniqueness'', 1), (''Timeliness'', 1),
           (''Validity'', 1), (''Consistency'', 1)])"
  by code_simp

lemma simulate_sample:
  "simulate_sql_analysis demo_lib (Some sample_df) default_dq_rules_config =
     Inr (MockSqlText
            \<lparr>select_cols = [], group_by_cols = ''1'',
             avg_trans = ''AVG(TransactionAmount)'',
             unique_cust = ''COUNT(DISTINCT CustomerID)'',
             low_sat_cond = ''WHEN SatisfactionScore < 3 THEN 1 ELSE 0'',
             issues_found = ''Completeness, Uniqueness, Timeliness, Validity, Consistency'',
             recommend = ''Timeliness''\<rparr>,
          NpFloat64 65,
          [(''Completeness'', NpFloat64 (float64 (833 / 10))),
           (''Uniqueness'', PFloat (float64 (667 / 10))),
           (''Timeliness'', PFloat 25), (''Validity'', PFloat 75), (''Consistency'', PFloat 75)],
          [(''Completeness'', 2), (''Uniqueness'', 1), (''Timeliness'', 1),
           (''Validity'', 1), (''Consistency'', 1)])"
  by code_simp

lemma simulate_ids_only:
  "simulate_sql_analysis demo_lib (Some ids_only_df) default_dq_rules_config =
     Inl (Exn TypeError ''less-than not supported between instances of str and float'')"
  by code_simp

text \<open>
  Claim C3 says that the trust score is the mean of the numeric dimension results, for
  every dataset and configuration. \<^verbatim>\<open>simulate_sql_analysis\<close> computes that mean
  (\<open>trust_score_of\<close>), and then, before it returns, takes
  \<^verbatim>\<open>min(dama_results, key=...)\<close> over all five results. Whenever at least one result is a
  number and at least one is a sentinel string, that comparison of a string with a float
  raises TypeError and the function returns no trust score at all.
\<close>

theorem trust_score_lost_on_mixed_results:
  assumes wf: "df_wf df" and rows: "\<not> df_empty df"
      and run: "run_mock_dama_checks L (Some df) config = Inr (res, iss)"
      and num: "\<exists>a \<in> snd ` set res. is_int_or_float a"
      and str: "\<exists>b \<in> snd ` set res. \<not> is_int_or_float b"
  shows "\<exists>e. simulate_sql_analysis L (Some df) config = Inl e \<and> exn_cls e = TypeError"
proof -
  from run_mock_dama_checks_ok(2)[OF wf rows run]
  have ok: "\<forall>v \<in> snd ` set res. dim_ok v" by (auto simp: list_all_iff)
  have mk: "min_key res =
      Inl (Exn TypeError ''less-than not supported between instances of str and float'')"
    by (rule min_key_mixed[OF ok num str])
  have vs: "valid_scores_of res \<noteq> []"
    using num by (auto simp: valid_scores_of_def filter_empty_conv)
  show ?thesis
    using rows run mk vs
    by (auto simp: simulate_sql_analysis_def Let_def split: sum.splits dest: in_columns_exn)
qed

theorem trust_score_lost_on_mixed_results_witness:
  "\<exists>e. simulate_sql_analysis demo_lib (Some ids_only_df) default_dq_rules_config = Inl e \<and>
        exn_cls e = TypeError"
proof -
  have wf: "df_wf ids_only_df"
    by (simp add: df_wf_def ids_only_df_def column_names_def df_len_def)
  have rows: "\<not> df_empty ids_only_df"
    by (simp add: df_empty_def ids_only_df_def df_len_def)
  show ?thesis
    using trust_score_lost_on_mixed_results [OF wf rows run_ids_only] by simp
qed

subsection \<open>Failures of one dimension\<close>

lemma catch_Inl: "catch (Inl e) = (error_result e, None)"
  by (simp add: catch_def)

text \<open>
  Claim C8 says that any failure during one dimension's computation is caught, recorded as
  an error sentinel for that dimension only, and left out of the trust score. The reading
  of the configuration and the guards are outside the dimension's \<^verbatim>\<open>try\<close>: a
  \<^verbatim>\<open>completeness_cols\<close> that is None, or a column setting that is a list, raises out of
  \<^verbatim>\<open>run_mock_dama_checks\<close> and no dimension is recorded. A failure inside the \<^verbatim>\<open>try\<close>
  (here a range of two strings) is caught and recorded for its dimension alone, but the
  trust score is then lost in \<^verbatim>\<open>simulate_sql_analysis\<close>, which raises on the mixed results.
\<close>

theorem dimension_failure_not_isolated:
  "run_mock_dama_checks demo_lib (Some sample_df) [(KStr ''completeness_cols'', PNone)] =
     Inl (Exn TypeError ''object is not iterable'') \<and>
   run_mock_dama_checks demo_lib (Some sample_df)
       (dict_set default_dq_rules_config (KStr ''validity_col'') (PList [PStr ''TransactionAmount''])) =
     Inl (Exn TypeError ''unhashable type'') \<and>
   run_mock_dama_checks demo_lib (Some sample_df)
       (dict_set default_dq_rules_config (KStr ''consistency_range'')
          (PTuple [PStr ''low'', PStr ''high''])) =
     Inr ([(''Completeness'', NpFloat64 (float64 (833 / 10))),
           (''Uniqueness'', PFloat (float64 (667 / 10))),
           (''Timeliness'', PFloat 25), (''Validity'', PFloat 75),
           (''Consistency'', PStr ''Error (Invalid comparison between float64 and str)'')],
          [(''Completeness'', 2), (''Uniqueness'', 1), (''Timeliness'', 1), (''Validity'', 1)]) \<and>
   simulate_sql_analysis demo_lib (Some sample_df)
       (dict_set default_dq_rules_config (KStr ''consistency_range'')
          (PTuple [PStr ''low'', PStr ''high''])) =
     Inl (Exn TypeError ''less-than not supported between instances of str and float'')"
  by code_simp

subsection \<open>Consistency and the shape of the range\<close>



section \<open>Properties of the serializer\<close>

subsection \<open>A load that fails\<close>

lemma apply_defaults_force:
  "apply_defaults True kvs st k = (case map_of (rev kvs) k of Some v \<Rightarrow> Some v | None \<Rightarrow> st k)"
proof (induction kvs arbitrary: st)
  case Nil then show ?case by simp
next
  case (Cons kv kvs)
  obtain key v where kv: "kv = (key, v)" by (cases kv)
  show ?case
    by (simp add: kv Cons.IH map_add_def split: option.splits)
qed

lemma map_of_rev_distinct:
  "distinct (map fst xs) \<Longrightarrow> map_of (rev xs) = map_of xs"
proof (induction xs)
  case Nil then show ?case by simp
next
  case (Cons kv xs)
  obtain k v where kv: "kv = (k, v)" by (cases kv)
  have none: "map_of xs k = None" using Cons.prems kv by (simp add: map_of_eq_None_iff)
  have ih: "map_of (rev xs) = map_of xs" using Cons by simp
  show ?case
    by (rule ext) (simp add: kv ih map_add_def none split: option.splits)
qed

lemma defaults_distinct: "distinct (map fst (defaults L))"
  by (simp add: defaults_def)

lemma apply_defaults_lookup:
  "apply_defaults True (defaults L) st k =
     (case map_of (defaults L) k of Some v \<Rightarrow> Some v | None \<Rightarrow> st k)"
  by (simp add: apply_defaults_force map_of_rev_distinct[OF defaults_distinct])

lemma defaults_repaired:
  "map_of (defaults L) ''interview_questions'' = Some (PDict default_interview_questions)"
  "map_of (defaults L) ''maturity_evidence'' =
     Some (PDict (map (\<lambda>d. (KStr d, PStr [])) mock_maturity_dimensions))"
  "map_of (defaults L) ''maturity_assessments_history'' = Some (PDict [])"
  "map_of (defaults L) ''dq_rules_config'' = Some (PDict default_dq_rules_config)"
  "map_of (defaults L) ''state_initialized'' = Some (PBool True)"
  by (simp_all add: defaults_def)

lemma init_session_state_forced:
  "init_session_state L True st k =
     (case map_of (defaults L) k of Some v \<Rightarrow> Some v | None \<Rightarrow> st k)"
  using defaults_repaired[of L]
  by (auto simp: init_session_state_def ensure_dict_def Let_def apply_defaults_lookup)

text \<open>
  Claim C9. When the snapshot file does not exist, when opening or parsing it raises, and
  when the parsed document is no object, \<^verbatim>\<open>load_app_state_json\<close> returns False (it is a
  total function of the file and the state: no exception leaves it) and the state it
  leaves is \<^verbatim>\<open>init_session_state(force_defaults=True)\<close> of the state before: every key of
  the built-in defaults holds its default value, and every other key is untouched.
\<close>

theorem load_failure_resets_state:
  "load_app_state_json L NoFile st = (init_session_state L True st, [], False) \<and>
   load_app_state_json L (BadFile e) st = (init_session_state L True st, [LoadError e], False) \<and>
   (\<forall>j. (\<forall>d. json_load j \<noteq> PDict d) \<longrightarrow>
      load_app_state_json L (JsonFile j) st =
        (init_session_state L True st,
         [LoadError (Exn AttributeError ''object has no attribute items'')], False)) \<and>
   (\<forall>k. init_session_state L True st k =
      (case map_of (defaults L) k of Some v \<Rightarrow> Some v | None \<Rightarrow> st k))"
proof (intro conjI allI impI)
  fix j assume "\<forall>d. json_load j \<noteq> PDict d"
  then show "load_app_state_json L (JsonFile j) st =
        (init_session_state L True st,
         [LoadError (Exn AttributeError ''object has no attribute items'')], False)"
    by (cases "json_load j") (auto simp: load_app_state_json_def)
qed (simp_all add: load_app_state_json_def init_session_state_forced)

theorem load_failure_resets_state_witness:
  "snd (snd (load_app_state_json demo_lib NoFile [''data_trust_score'' \<mapsto> PInt 77])) = False \<and>
   fst (load_app_state_json demo_lib NoFile [''data_trust_score'' \<mapsto> PInt 77]) ''data_trust_score''
     = Some (PInt 0) \<and>
   fst (load_app_state_json demo_lib (BadFile (Exn ValueError ''Expecting value''))
          [''dq_rules_config'' \<mapsto> PStr ''edited''])
       ''dq_rules_config'' = Some (PDict default_dq_rules_config) \<and>
   load_app_state_json demo_lib (JsonFile (JArr [])) Map.empty =
     (init_session_state demo_lib True Map.empty,
      [LoadError (Exn AttributeError ''object has no attribute items'')], False)"
proof -
  have m: "map_of (defaults demo_lib) ''data_trust_score'' = Some (PInt 0)"
    by (simp add: defaults_def)
  show ?thesis
    using load_failure_resets_state [of demo_lib "[''data_trust_score'' \<mapsto> PInt 77]"]
      load_failure_resets_state [of demo_lib "[''dq_rules_config'' \<mapsto> PStr ''edited'']"
         "Exn ValueError ''Expecting value''"]
      load_failure_resets_state [of demo_lib Map.empty]
    by (simp add: m defaults_repaired)
qed

subsection \<open>The loop over a loaded document\<close>

lemma load_entry_canon:
  "load_entry L key v (st, m) =
     (case fst (load_entry L key v (Map.empty, [])) key of
        None \<Rightarrow> st
      | Some x \<Rightarrow> st(key \<mapsto> x),
      m @ snd (load_entry L key v (Map.empty, [])))"
  unfolding load_entry_def Let_def
  by (cases v) (auto simp: Let_def split: sum.splits)

lemma load_entries_msgs:
  "snd (load_entries L kvs (st, m)) =
     m @ concat (map (\<lambda>kv. snd (load_entry L (key_text L (fst kv)) (snd kv) (Map.empty, []))) kvs)"
proof (induction kvs arbitrary: st m)
  case Nil then show ?case by simp
next
  case (Cons kv kvs)
  obtain k v where kv: "kv = (k, v)" by (cases kv)
  show ?case
    by (simp add: kv load_entry_canon[of L "key_text L k" v st m] Cons.IH)
qed

lemma load_entries_other:
  "key \<notin> (\<lambda>kv. key_text L (fst kv)) ` set kvs \<Longrightarrow> fst (load_entries L kvs (st, m)) key = st key"
proof (induction kvs arbitrary: st m)
  case Nil then show ?case by simp
next
  case (Cons kv kvs)
  obtain k v where kv: "kv = (k, v)" by (cases kv)
  have ne: "key_text L k \<noteq> key" using Cons.prems kv by auto
  show ?case
    using Cons.prems ne
    by (simp add: kv load_entry_canon[of L "key_text L k" v st m] Cons.IH split: option.splits)
qed

lemma load_entries_lookup:
  assumes "distinct (map (\<lambda>kv. key_text L (fst kv)) kvs)" "(k, v) \<in> set kvs"
  shows "fst (load_entries L kvs (st, m)) (key_text L k) =
           (case fst (load_entry L (key_text L k) v (Map.empty, [])) (key_text L k) of
              None \<Rightarrow> st (key_text L k)
            | Some x \<Rightarrow> Some x)"
  using assms
proof (induction kvs arbitrary: st m)
  case Nil then show ?case by simp
next
  case (Cons kv kvs)
  obtain k' v' where kv: "kv = (k', v')" by (cases kv)
  obtain st' m' where step: "load_entry L (key_text L k') v' (st, m) = (st', m')"
    by (cases "load_entry L (key_text L k') v' (st, m)")
  have st': "st' = (case fst (load_entry L (key_text L k') v' (Map.empty, [])) (key_text L k') of
                      None \<Rightarrow> st | Some x \<Rightarrow> st(key_text L k' \<mapsto> x))"
    using step load_entry_canon[of L "key_text L k'" v' st m] by simp
  have unfold: "load_entries L (kv # kvs) (st, m) = load_entries L kvs (st', m')"
    by (simp add: kv step)
  show ?case
  proof (cases "(k, v) = (k', v')")
    case True
    have notin: "key_text L k \<notin> (\<lambda>kv. key_text L (fst kv)) ` set kvs"
      using Cons.prems(1) kv True by auto
    have "fst (load_entries L kvs (st', m')) (key_text L k) = st' (key_text L k)"
      by (rule load_entries_other[OF notin])
    then show ?thesis
      unfolding unfold using True by (simp add: st' split: option.splits)
  next
    case False
    then have mem: "(k, v) \<in> set kvs" using Cons.prems(2) kv by auto
    have d: "distinct (map (\<lambda>kv. key_text L (fst kv)) kvs)" using Cons.prems(1) by simp
    have ne: "key_text L k' \<noteq> key_text L k"
      using Cons.prems(1) kv mem by (auto simp: image_iff)
    show ?thesis
      unfolding unfold Cons.IH[OF d mem]
      using ne by (simp add: st' split: option.splits)
  qed
qed

lemma dict_set_keys: "fst ` set (dict_set d k v) = insert k (fst ` set d)"
  by (induction d k v rule: dict_set.induct) auto

lemma dict_set_distinct: "distinct (map fst d) \<Longrightarrow> distinct (map fst (dict_set d k v))"
  by (induction d k v rule: dict_set.induct) (auto simp: dict_set_keys)

lemma dict_of_pairs_distinct:
  "distinct (map fst acc) \<Longrightarrow> distinct (map fst (dict_of_pairs acc kvs))"
  by (induction acc kvs rule: dict_of_pairs.induct) (auto simp: dict_set_distinct)

lemma dict_of_pairs_keys:
  "fst ` set (dict_of_pairs acc kvs) = fst ` set acc \<union> fst ` set kvs"
  by (induction acc kvs rule: dict_of_pairs.induct) (auto simp: dict_set_keys)

lemma json_load_dict:
  assumes "json_load j = PDict d"
  shows "distinct (map fst d) \<and> (\<forall>k \<in> fst ` set d. \<exists>s. k = KStr s)"
proof (cases j)
  case (JObj kjs)
  let ?ps = "map (\<lambda>kj. (KStr (fst kj), json_load (snd kj))) kjs"
  have d: "d = dict_of_pairs [] ?ps" using assms JObj by simp
  have "distinct (map fst d)" unfolding d by (rule dict_of_pairs_distinct) simp
  moreover have "fst ` set d = fst ` set ?ps"
    unfolding d by (simp add: dict_of_pairs_keys)
  then have "\<forall>k \<in> fst ` set d. \<exists>s. k = KStr s" by auto
  ultimately show ?thesis by simp
qed (use assms in auto)

lemma json_load_dict_texts:
  assumes "json_load j = PDict d"
  shows "distinct (map (\<lambda>kv. key_text L (fst kv)) d)"
proof -
  from json_load_dict[OF assms] have dist: "distinct (map fst d)"
    and str: "\<forall>k \<in> fst ` set d. \<exists>s. k = KStr s" by auto
  have "inj_on (key_text L) (fst ` set d)"
  proof (rule inj_onI)
    fix a b assume a: "a \<in> fst ` set d" and b: "b \<in> fst ` set d"
      and eq: "key_text L a = key_text L b"
    from str a obtain s where s: "a = KStr s" by blast
    from str b obtain t where t: "b = KStr t" by blast
    from eq show "a = b" by (simp add: s t)
  qed
  then have "distinct (map (key_text L) (map fst d))"
    using dist by (subst distinct_map) simp
  then show ?thesis by (simp add: comp_def)
qed

lemma load_json_object:
  assumes "json_load j = PDict d" "map_of d (KStr key) = Some v"
  shows "load_app_state_json L (JsonFile j) st =
           (fst (load_entries L d (st, [])), snd (load_entries L d (st, [])), True)"
    and "fst (load_entries L d (st, [])) key =
           (case fst (load_entry L key v (Map.empty, [])) key of
              None \<Rightarrow> st key | Some x \<Rightarrow> Some x)"
    and "set (snd (load_entry L key v (Map.empty, []))) \<subseteq> set (snd (load_entries L d (st, [])))"
proof -
  show "load_app_state_json L (JsonFile j) st =
           (fst (load_entries L d (st, [])), snd (load_entries L d (st, [])), True)"
    using assms(1) by (simp add: load_app_state_json_def Let_def)
  have mem: "(KStr key, v) \<in> set d" using assms(2) by (rule map_of_SomeD)
  show "fst (load_entries L d (st, [])) key =
           (case fst (load_entry L key v (Map.empty, [])) key of
              None \<Rightarrow> st key | Some x \<Rightarrow> Some x)"
    using load_entries_lookup[OF json_load_dict_texts[OF assms(1), of L] mem, where st=st and m="[]"]
    unfolding key_text.simps .
  show "set (snd (load_entry L key v (Map.empty, []))) \<subseteq> set (snd (load_entries L d (st, [])))"
    using mem by (force simp: load_entries_msgs)
qed

subsection \<open>Writing and reading a stable value\<close>

lemma dict_of_pairs_append:
  "distinct (map fst (acc @ kvs)) \<Longrightarrow> dict_of_pairs acc kvs = acc @ kvs"
proof (induction acc kvs rule: dict_of_pairs.induct)
  case (1 acc) then show ?case by simp
next
  case (2 acc k v rest)
  have new: "k \<notin> fst ` set acc" using 2(2) by auto
  have ds: "dict_set acc k v = acc @ [(k, v)]"
    using new by (induction acc) auto
  show ?case using 2 by (simp add: ds)
qed

lemma collect_roundtrip:
  assumes "\<And>x. x \<in> set xs \<Longrightarrow> \<exists>y. f x = Inr y \<and> g y = x"
  shows "\<exists>ys. collect (map f xs) = Inr ys \<and> map g ys = xs"
  using assms
proof (induction xs)
  case Nil then show ?case by simp
next
  case (Cons x xs)
  from Cons.prems[of x] obtain y where y: "f x = Inr y" "g y = x" by auto
  from Cons.IH Cons.prems obtain ys where ys: "collect (map f xs) = Inr ys" "map g ys = xs"
    by auto
  show ?case by (simp add: y ys)
qed

lemma json_roundtrip:
  "json_stable v \<Longrightarrow> \<exists>j. json_dump L v = Inr j \<and> json_load j = v"
proof (induction L v rule: json_dump.induct)
  case (8 L xs)
  have "\<exists>js. collect (map (json_dump L) xs) = Inr js \<and> map json_load js = xs"
    by (rule collect_roundtrip) (use 8 in \<open>auto simp: list_all_iff\<close>)
  then show ?case by auto
next
  case (10 L d)
  let ?f = "\<lambda>kv. case json_key L (fst kv) of
                     Inl e \<Rightarrow> Inl e
                   | Inr k \<Rightarrow> (case json_dump L (snd kv) of
                                 Inl e \<Rightarrow> Inl e
                               | Inr j \<Rightarrow> Inr (k, j))"
  let ?g = "\<lambda>kj. (KStr (fst kj), json_load (snd kj))"
  have each: "\<exists>y. ?f kv = Inr y \<and> ?g y = kv" if kv: "kv \<in> set d" for kv
  proof -
    obtain k v where p: "kv = (k, v)" by (cases kv)
    from 10(2) kv p obtain s where s: "k = KStr s" and st: "json_stable v"
      by (cases k) (auto simp: list_all_iff)
    have "json_key L (fst kv) = Inr s" by (simp add: p s)
    from 10(1)[OF kv this] st p obtain j where "json_dump L v = Inr j" "json_load j = v" by auto
    then show ?thesis by (simp add: p s)
  qed
  from collect_roundtrip[of d ?f ?g, OF each]
  obtain kjs where kjs: "collect (map ?f d) = Inr kjs" "map ?g kjs = d" by blast
  have "dict_of_pairs [] (map ?g kjs) = d"
    using dict_of_pairs_append[of "[]" d] 10(2) kjs(2) by simp
  then show ?case using kjs by simp
qed auto

subsection \<open>The role-assignment table\<close>

lemma load_entry_raci:
  "load_entry L ''raci_df_json'' (PStr text) (st, m) =
     (st(''raci_df_json'' \<mapsto> fst (load_raci L ''raci_df_json'' text)),
      m @ snd (load_raci L ''raci_df_json'' text))"
  by (simp add: load_entry_def Let_def)

lemma load_raci_cases:
  "read_json_split L text = Inl e \<Longrightarrow>
     load_raci L key text = (PFrame default_raci_frame, [RaciLoadFailed key e])"
  "read_json_split L text = Inr df \<Longrightarrow> ''Activity'' \<notin> set (column_names df) \<Longrightarrow>
     load_raci L key text = (PFrame default_raci_frame, [RaciMissingActivity key])"
  "read_json_split L text = Inr df \<Longrightarrow> map_of (df_columns df) ''Activity'' = Some col \<Longrightarrow>
     load_raci L key text =
       (PFrame \<lparr>df_index_name = Some ''Activity'', df_index = col,
                df_columns = filter (\<lambda>c. fst c \<noteq> ''Activity'') (df_columns df)\<rparr>, [])"
  by (auto simp: load_raci_def set_index_def dest: map_of_column_names)

text \<open>
  Claim C2, as amended. For a snapshot document that holds a string under
  \<^verbatim>\<open>raci_df_json\<close>, the load returns True, and: when the table read from the string
  has no column \<^verbatim>\<open>Activity\<close>, or reading it raises, the built-in default table is
  stored and a warning is shown; when the table has the column, it is stored with that
  column as its index, whether the column's values are unique or not.
\<close>

theorem raci_table_reconstruction:
  assumes obj: "json_load j = PDict loaded"
      and raci: "map_of loaded (KStr ''raci_df_json'') = Some (PStr text)"
  shows "snd (snd (load_app_state_json L (JsonFile j) st)) = True \<and>
         (\<forall>df. read_json_split L text = Inr df \<and> ''Activity'' \<notin> set (column_names df) \<longrightarrow>
            fst (load_app_state_json L (JsonFile j) st) ''raci_df_json'' = Some (PFrame default_raci_frame) \<and>
            RaciMissingActivity ''raci_df_json'' \<in> set (fst (snd (load_app_state_json L (JsonFile j) st)))) \<and>
         (\<forall>e. read_json_split L text = Inl e \<longrightarrow>
            fst (load_app_state_json L (JsonFile j) st) ''raci_df_json'' = Some (PFrame default_raci_frame) \<and>
            RaciLoadFailed ''raci_df_json'' e \<in> set (fst (snd (load_app_state_json L (JsonFile j) st)))) \<and>
         (\<forall>df col. read_json_split L text = Inr df \<and> map_of (df_columns df) ''Activity'' = Some col \<longrightarrow>
            fst (load_app_state_json L (JsonFile j) st) ''raci_df_json'' =
              Some (PFrame \<lparr>df_index_name = Some ''Activity'', df_index = col,
                             df_columns = filter (\<lambda>c. fst c \<noteq> ''Activity'') (df_columns df)\<rparr>))"
proof -
  let ?r = "load_raci L ''raci_df_json'' text"
  note l = load_json_object[OF obj raci, of L st]
  have st: "fst (load_app_state_json L (JsonFile j) st) ''raci_df_json'' = Some (fst ?r)"
    using l(1,2) by (simp add: load_entry_raci)
  have ms: "set (snd ?r) \<subseteq> set (fst (snd (load_app_state_json L (JsonFile j) st)))"
    using l(1,3) by (simp add: load_entry_raci)
  have ok: "snd (snd (load_app_state_json L (JsonFile j) st)) = True"
    using l(1) by simp
  show ?thesis
    using st ms ok by (auto simp: load_raci_cases)
qed

text \<open>
  The claim as stated also promises the default table and a warning when the column is
  not unique. The loader tests only the presence of the column: a table whose
  \<^verbatim>\<open>Activity\<close> repeats a value is stored as it is, with no warning.
\<close>

theorem raci_repeated_activity_counterexample:
  "fst (load_app_state_json demo_lib
          (JsonFile (JObj [(''raci_df_json'', JStr ''repeated_raci'')])) Map.empty) ''raci_df_json'' =
     Some (PFrame \<lparr>df_index_name = Some ''Activity'',
                    df_index = [CStr ''Define Data Quality Rules'', CStr ''Define Data Quality Rules''],
                    df_columns = [(''CDO'', [CStr ''A'', CStr ''R''])]\<rparr>) \<and>
   fst (load_app_state_json demo_lib
          (JsonFile (JObj [(''raci_df_json'', JStr ''repeated_raci'')])) Map.empty) ''raci_df_json'' \<noteq>
     Some (PFrame default_raci_frame) \<and>
   fst (snd (load_app_state_json demo_lib
          (JsonFile (JObj [(''raci_df_json'', JStr ''repeated_raci'')])) Map.empty)) = []"
  by (simp add: load_app_state_json_def load_entry_def load_raci_def demo_lib_def repeated_raci_def
      set_index_def column_names_def default_raci_frame_def frame_of_columns_def
      default_raci_data_def Let_def)

theorem raci_table_reconstruction_witness:
  "fst (load_app_state_json demo_lib
          (JsonFile (JObj [(''raci_df_json'', JStr ''flat_raci'')])) Map.empty) ''raci_df_json'' =
     Some (PFrame \<lparr>df_index_name = Some ''Activity'',
                    df_index = [CStr ''Define Data Quality Rules'', CStr ''Approve Master Data Changes''],
                    df_columns = [(''CDO'', [CStr ''A'', CStr ''A'']),
                                  (''IT Security'', [CStr ''I'', CStr ''R''])]\<rparr>) \<and>
   fst (load_app_state_json demo_lib
          (JsonFile (JObj [(''raci_df_json'', JStr ''renamed_raci'')])) Map.empty) ''raci_df_json'' =
     Some (PFrame default_raci_frame) \<and>
   RaciMissingActivity ''raci_df_json'' \<in>
     set (fst (snd (load_app_state_json demo_lib
          (JsonFile (JObj [(''raci_df_json'', JStr ''renamed_raci'')])) Map.empty))) \<and>
   fst (load_app_state_json demo_lib
          (JsonFile (JObj [(''raci_df_json'', JStr ''not a table'')])) Map.empty) ''raci_df_json'' =
     Some (PFrame default_raci_frame)"
proof -
  have a: "read_json_split demo_lib ''flat_raci'' = Inr flat_raci"
          "read_json_split demo_lib ''renamed_raci'' = Inr renamed_raci"
          "read_json_split demo_lib ''not a table'' = Inl (Exn ValueError ''Expected object or value'')"
    by (simp_all add: demo_lib_def)
  show ?thesis
    using
      raci_table_reconstruction [of "JObj [(''raci_df_json'', JStr ''flat_raci'')]"
        "[(KStr ''raci_df_json'', PStr ''flat_raci'')]" "''flat_raci''" demo_lib Map.empty]
      raci_table_reconstruction [of "JObj [(''raci_df_json'', JStr ''renamed_raci'')]"
        "[(KStr ''raci_df_json'', PStr ''renamed_raci'')]" "''renamed_raci''" demo_lib Map.empty]
      raci_table_reconstruction [of "JObj [(''raci_df_json'', JStr ''not a table'')]"
        "[(KStr ''raci_df_json'', PStr ''not a table'')]" "''not a table''" demo_lib Map.empty]
    by (simp add: a flat_raci_def renamed_raci_def column_names_def)
qed

end
